theory Spec2Isabelle
  imports Complex_Main "HOL-Library.AList" "HOL-Library.Sublist"
begin

section \<open>Frontend auditor agent: audit engine and GitHub client\<close>

text \<open>
  A shallow embedding of \<^verbatim>\<open>src/audit/audit-engine.js\<close> (class \<^verbatim>\<open>AuditEngine\<close>),
  \<^verbatim>\<open>src/services/github-mcp-client.js\<close> (class \<^verbatim>\<open>GitHubMCPClient\<close>) and the constants of
  \<^verbatim>\<open>src/config/mcp-config.js\<close>.

  Conventions of the embedding.
  \<^item> JavaScript strings are \<open>string\<close>. Every comparison the code makes
    (\<^verbatim>\<open>===\<close>, \<^verbatim>\<open>startsWith\<close>, \<^verbatim>\<open>endsWith\<close>, \<^verbatim>\<open>includes\<close>) has an ASCII needle, so it gives
    the same answer on UTF-16 code units and on bytes.
  \<^item> A thrown exception is a value \<open>Inl e\<close> of a sum type; a \<^verbatim>\<open>try/catch\<close> is a case
    distinction on that sum.
  \<^item> An object used as a dictionary (\<^verbatim>\<open>auditReport.categories\<close>, a parsed JSON object) is
    an association list in insertion order; assignment to a key replaces the value in
    place or appends a new key at the end, which is \<open>AList.update\<close>.
  \<^item> Console output is not modelled.
\<close>

subsection \<open>Errors\<close>

datatype error =
    NotFoundError      \<comment> \<open>the remote service answers 404\<close>
  | TransientError     \<comment> \<open>network or rate-limit failure of the remote service\<close>
  | TypeError          \<comment> \<open>property access on \<^verbatim>\<open>undefined\<close>/\<^verbatim>\<open>null\<close>, \<^verbatim>\<open>Buffer.from(undefined)\<close>\<close>
  | SyntaxError        \<comment> \<open>\<^verbatim>\<open>JSON.parse\<close> or \<^verbatim>\<open>new RegExp\<close> on malformed text\<close>
  | NotModelled        \<comment> \<open>regular-expression syntax outside the modelled fragment\<close>

type_synonym 'a ex = "error + 'a"

subsection \<open>Constants of \<^verbatim>\<open>mcp-config.js\<close>\<close>

datatype severity = Critical | High | Medium | Low | Info

definition STRUCTURE :: string where "STRUCTURE = ''Repository Structure''"
definition DEPENDENCIES :: string where "DEPENDENCIES = ''Dependencies & Package Management''"
definition BUILD :: string where "BUILD = ''Build Configuration''"
definition CODE_QUALITY :: string where "CODE_QUALITY = ''Code Quality & Standards''"
definition TESTING :: string where "TESTING = ''Testing Setup''"
definition DOCUMENTATION :: string where "DOCUMENTATION = ''Documentation''"
definition SECURITY :: string where "SECURITY = ''Security & Compliance''"

record mcp_config =
  target_owner :: string
  target_repo :: string
  target_branch :: string
  boilerplate_owner :: string
  boilerplate_repo :: string
  boilerplate_path :: string
  boilerplate_branch :: string
  commonConfig_owner :: string
  commonConfig_repo :: string
  commonConfig_branch :: string
  maxFileSize :: nat
  maxFilesPerBatch :: nat
  batchDelay :: nat

definition MCP_CONFIG :: mcp_config where
  "MCP_CONFIG = \<lparr>
     target_owner = ''DTSL'', target_repo = ''dnd-editor'', target_branch = ''dev'',
     boilerplate_owner = ''DTSL'', boilerplate_repo = ''backstage-templates'',
     boilerplate_path = ''templates/monorepo-app-boilerplate/template'',
     boilerplate_branch = ''main'',
     commonConfig_owner = ''DTSL'', commonConfig_repo = ''fe-common-config'',
     commonConfig_branch = ''main'',
     maxFileSize = 50000, maxFilesPerBatch = 10, batchDelay = 1000 \<rparr>"

subsection \<open>Data model of the audit report\<close>

text \<open>
  A finding. The field \<^verbatim>\<open>file\<close> of the source is \<open>file_field\<close> here, and an absent
  \<^verbatim>\<open>suggestion\<close> is \<open>None\<close>.
\<close>

record issue =
  severity :: severity
  message :: string
  description :: string
  file_field :: string
  suggestion :: "string option"

record category_result =
  issues :: "issue list"
  score :: int

text \<open>
  \<^verbatim>\<open>complianceScore\<close> is a JavaScript number: \<^verbatim>\<open>calculateComplianceScore\<close> stores
  \<^verbatim>\<open>Math.round\<close> of a quotient, which is \<^verbatim>\<open>NaN\<close> when there is no category.
\<close>

datatype jsnum = NaN | Num rat

record summary =
  totalIssues :: nat
  criticalIssues :: nat
  highIssues :: nat
  mediumIssues :: nat
  lowIssues :: nat
  complianceScore :: jsnum

record audit_report =
  repository :: "string \<times> string"
  timestamp :: string
  summary :: summary
  categories :: "(string \<times> category_result) list"
  recommendations :: "string list"

text \<open>The object literal at the start of \<^verbatim>\<open>auditRepository\<close>.\<close>

definition newAuditReport :: "string \<Rightarrow> string \<Rightarrow> string \<Rightarrow> audit_report" where
  "newAuditReport owner repo now = \<lparr>
     repository = (owner, repo),
     timestamp = now,
     summary = \<lparr> totalIssues = 0, criticalIssues = 0, highIssues = 0, mediumIssues = 0,
                 lowIssues = 0, complianceScore = Num 0 \<rparr>,
     categories = [],
     recommendations = [] \<rparr>"

text \<open>\<^verbatim>\<open>auditReport.categories[category] = { issues: [], score: 100 }\<close>\<close>

definition initCategory :: "string \<Rightarrow> audit_report \<Rightarrow> audit_report" where
  "initCategory category r =
     r\<lparr>categories := AList.update category \<lparr>issues = [], score = 100\<rparr> (categories r)\<rparr>"

subsection \<open>\<^verbatim>\<open>AuditEngine.addIssue\<close>\<close>

text \<open>
  The first statement reads \<^verbatim>\<open>auditReport.categories[category].issues\<close>: on a category
  that was never initialised this raises a \<^verbatim>\<open>TypeError\<close> before anything is changed.
  Otherwise the issue is pushed, \<^verbatim>\<open>totalIssues\<close> is incremented, the \<^verbatim>\<open>switch\<close> bumps one
  counter and subtracts from the score (no case for \<^verbatim>\<open>info\<close>), and the score is clamped
  with \<^verbatim>\<open>Math.max(0, score)\<close>.
\<close>

definition addIssue :: "audit_report \<Rightarrow> string \<Rightarrow> issue \<Rightarrow> audit_report ex" where
  "addIssue r category i =
     (case map_of (categories r) category of
        None \<Rightarrow> Inl TypeError
      | Some cr \<Rightarrow>
          let cr1 = cr\<lparr>issues := issues cr @ [i]\<rparr>;
              s1 = (summary r)\<lparr>totalIssues := totalIssues (summary r) + 1\<rparr>;
              (s2, cr2) =
                (case severity i of
                   Critical \<Rightarrow> (s1\<lparr>criticalIssues := criticalIssues s1 + 1\<rparr>,
                                cr1\<lparr>score := score cr1 - 25\<rparr>)
                 | High \<Rightarrow> (s1\<lparr>highIssues := highIssues s1 + 1\<rparr>,
                            cr1\<lparr>score := score cr1 - 15\<rparr>)
                 | Medium \<Rightarrow> (s1\<lparr>mediumIssues := mediumIssues s1 + 1\<rparr>,
                              cr1\<lparr>score := score cr1 - 10\<rparr>)
                 | Low \<Rightarrow> (s1\<lparr>lowIssues := lowIssues s1 + 1\<rparr>,
                           cr1\<lparr>score := score cr1 - 5\<rparr>)
                 | Info \<Rightarrow> (s1, cr1));
              cr3 = cr2\<lparr>score := max 0 (score cr2)\<rparr>
          in Inr (r\<lparr>summary := s2, categories := AList.update category cr3 (categories r)\<rparr>))"

text \<open>A sequence of findings recorded one after the other; the first exception ends it.\<close>

fun addIssues :: "audit_report \<Rightarrow> (string \<times> issue) list \<Rightarrow> audit_report ex" where
  "addIssues r [] = Inr r"
| "addIssues r ((category, i) # rest) =
     (case addIssue r category i of Inl e \<Rightarrow> Inl e | Inr r' \<Rightarrow> addIssues r' rest)"

text \<open>The penalty table of the specification (a finding of severity info costs nothing).\<close>

fun penalty :: "severity \<Rightarrow> int" where
  "penalty Critical = 25"
| "penalty High = 15"
| "penalty Medium = 10"
| "penalty Low = 5"
| "penalty Info = 0"

text \<open>The findings of a sequence that go to one category.\<close>

definition recorded :: "string \<Rightarrow> (string \<times> issue) list \<Rightarrow> issue list" where
  "recorded category ops = map snd (filter (\<lambda>op. fst op = category) ops)"

definition penalties :: "issue list \<Rightarrow> int" where
  "penalties is = sum_list (map (\<lambda>i. penalty (severity i)) is)"

subsection \<open>\<^verbatim>\<open>AuditEngine.calculateComplianceScore\<close>\<close>

text \<open>
  \<^verbatim>\<open>Math.round\<close> rounds to the nearest integer, a tie towards \<open>+\<infinity>\<close>. The quotient is
  computed in double precision; here it is the exact rational. For fewer than
  \<open>2^45\<close> categories with scores between 0 and 100 both agree after rounding: every
  half-integer up to 100 is a double, the rounding of the division is monotone, and a
  quotient that is not a half-integer is at least \<open>1 / (2 n)\<close> away from one.
\<close>

fun Math_round :: "jsnum \<Rightarrow> jsnum" where
  "Math_round NaN = NaN"
| "Math_round (Num q) = Num (of_int \<lfloor>q + 1 / 2\<rfloor>)"

text \<open>Division of two integer-valued numbers; \<^verbatim>\<open>0 / 0\<close> is \<^verbatim>\<open>NaN\<close>.\<close>

definition js_div :: "int \<Rightarrow> nat \<Rightarrow> jsnum" where
  "js_div a n = (if n = 0 then NaN else Num (of_int a / of_nat n))"

definition calculateComplianceScore :: "audit_report \<Rightarrow> audit_report" where
  "calculateComplianceScore r =
     (let categoryScores = map (\<lambda>cat. score cat) (map snd (categories r));
          averageScore = js_div (foldl (\<lambda>sum score. sum + score) 0 categoryScores)
                                (length categoryScores)
      in r\<lparr>summary := (summary r)\<lparr>complianceScore := Math_round averageScore\<rparr>\<rparr>)"

subsection \<open>Statements that may raise\<close>

text \<open>
  A statement works on a state \<open>'s\<close> (the report, or the array a collector pushes to).
  It either completes with a new state, or raises: \<open>Inl (e, s)\<close> carries the state as it
  was when \<open>e\<close> was raised, since what was written before the exception stays written.
\<close>

type_synonym 's stmt = "'s \<Rightarrow> (error \<times> 's) + 's"

definition skip :: "'s stmt" where
  "skip s = Inr s"

definition seq :: "'s stmt \<Rightarrow> 's stmt \<Rightarrow> 's stmt" where
  "seq a b s = (case a s of Inl x \<Rightarrow> Inl x | Inr s' \<Rightarrow> b s')"

fun seqs :: "'s stmt list \<Rightarrow> 's stmt" where
  "seqs [] = skip"
| "seqs (a # as) = seq a (seqs as)"

text \<open>\<^verbatim>\<open>const x = e; ...\<close> where evaluating \<open>e\<close> may raise.\<close>

definition letS :: "'a ex \<Rightarrow> ('a \<Rightarrow> 's stmt) \<Rightarrow> 's stmt" where
  "letS e k s = (case e of Inl err \<Rightarrow> Inl (err, s) | Inr v \<Rightarrow> k v s)"

text \<open>\<^verbatim>\<open>if (e) { a }\<close> where evaluating \<open>e\<close> may raise.\<close>

definition ifS :: "bool ex \<Rightarrow> 's stmt \<Rightarrow> 's stmt" where
  "ifS e a s = (case e of Inl err \<Rightarrow> Inl (err, s) | Inr b \<Rightarrow> if b then a s else Inr s)"

text \<open>\<^verbatim>\<open>for (const x of xs) { body }\<close> and \<^verbatim>\<open>xs.forEach(x => body)\<close>.\<close>

fun forEachS :: "'a list \<Rightarrow> ('a \<Rightarrow> 's stmt) \<Rightarrow> 's stmt" where
  "forEachS [] body = skip"
| "forEachS (x # xs) body = seq (body x) (forEachS xs body)"

text \<open>
  \<^verbatim>\<open>try { a } catch (error) { h }\<close>: the handler sees the error and the state at the
  moment of the exception.
\<close>

definition tryCatch :: "'s stmt \<Rightarrow> (error \<Rightarrow> 's \<Rightarrow> 's) \<Rightarrow> 's \<Rightarrow> 's" where
  "tryCatch a h s = (case a s of Inl (e, s') \<Rightarrow> h e s' | Inr s' \<Rightarrow> s')"

text \<open>The handler of the six checks only writes to the console.\<close>

definition logOnly :: "error \<Rightarrow> 's \<Rightarrow> 's" where
  "logOnly e s = s"

subsection \<open>Expressions that may raise\<close>

definition andE :: "bool ex \<Rightarrow> bool ex \<Rightarrow> bool ex" where
  "andE a b = (case a of Inl e \<Rightarrow> Inl e | Inr x \<Rightarrow> if x then b else Inr False)"

definition orE :: "bool ex \<Rightarrow> bool ex \<Rightarrow> bool ex" where
  "orE a b = (case a of Inl e \<Rightarrow> Inl e | Inr x \<Rightarrow> if x then Inr True else b)"

text \<open>\<^verbatim>\<open>xs.some(f)\<close> and \<^verbatim>\<open>xs.filter(f)\<close> with a callback that may raise.\<close>

fun someE :: "('a \<Rightarrow> bool ex) \<Rightarrow> 'a list \<Rightarrow> bool ex" where
  "someE f [] = Inr False"
| "someE f (x # xs) =
     (case f x of Inl e \<Rightarrow> Inl e | Inr b \<Rightarrow> if b then Inr True else someE f xs)"

fun filterE :: "('a \<Rightarrow> bool ex) \<Rightarrow> 'a list \<Rightarrow> 'a list ex" where
  "filterE f [] = Inr []"
| "filterE f (x # xs) =
     (case f x of
        Inl e \<Rightarrow> Inl e
      | Inr b \<Rightarrow> (case filterE f xs of
                    Inl e \<Rightarrow> Inl e
                  | Inr ys \<Rightarrow> Inr (if b then x # ys else ys)))"

subsection \<open>Strings\<close>

definition startsWith :: "string \<Rightarrow> string \<Rightarrow> bool" where
  "startsWith s x = prefix x s"

definition endsWith :: "string \<Rightarrow> string \<Rightarrow> bool" where
  "endsWith s x = suffix x s"

definition includes_str :: "string \<Rightarrow> string \<Rightarrow> bool" where
  "includes_str s x = sublist x s"

subsection \<open>JSON values and the built-ins of the runtime\<close>

datatype json =
    JNull
  | JBool bool
  | JNum rat
  | JStr string
  | JArr "json list"
  | JObj "(string \<times> json) list"

text \<open>
  The built-ins the code calls are parameters: \<^verbatim>\<open>JSON.parse\<close>,
  \<^verbatim>\<open>Buffer.from(s, 'base64').toString('utf8')\<close> (total on strings) and
  \<^verbatim>\<open>new Date().toISOString()\<close> (one reading of the clock for the run).
\<close>

record js_runtime =
  JSON_parse :: "string \<Rightarrow> json ex"
  base64_utf8 :: "string \<Rightarrow> string"
  now_iso :: string

text \<open>
  \<^verbatim>\<open>v.key\<close> for the property names the checks read (\<^verbatim>\<open>workspaces\<close>, \<^verbatim>\<open>scripts\<close>, \<^verbatim>\<open>husky\<close>,
  \<^verbatim>\<open>@dtsl/...\<close> and so on): none of them is a property of a prototype, so an object
  answers with its own entry, a number, string, boolean or array with \<^verbatim>\<open>undefined\<close>
  (\<open>None\<close>), and \<^verbatim>\<open>null\<close> raises.
\<close>

fun getProp :: "json \<Rightarrow> string \<Rightarrow> json option ex" where
  "getProp JNull key = Inl TypeError"
| "getProp (JObj kvs) key = Inr (map_of kvs key)"
| "getProp v key = Inr None"

text \<open>\<^verbatim>\<open>e?.key\<close> and \<^verbatim>\<open>e?.[key]\<close>: \<^verbatim>\<open>undefined\<close> when \<open>e\<close> is \<^verbatim>\<open>undefined\<close> or \<^verbatim>\<open>null\<close>.\<close>

fun optProp :: "json option \<Rightarrow> string \<Rightarrow> json option" where
  "optProp None key = None"
| "optProp (Some JNull) key = None"
| "optProp (Some (JObj kvs)) key = map_of kvs key"
| "optProp (Some v) key = None"

definition optChain :: "json option ex \<Rightarrow> string \<Rightarrow> json option ex" where
  "optChain e key = (case e of Inl err \<Rightarrow> Inl err | Inr v \<Rightarrow> Inr (optProp v key))"

text \<open>Truthiness: \<^verbatim>\<open>undefined\<close>, \<^verbatim>\<open>null\<close>, \<^verbatim>\<open>false\<close>, \<^verbatim>\<open>0\<close> and \<^verbatim>\<open>""\<close> are falsy.\<close>

fun truthy :: "json option \<Rightarrow> bool" where
  "truthy None = False"
| "truthy (Some JNull) = False"
| "truthy (Some (JBool b)) = b"
| "truthy (Some (JNum n)) = (n \<noteq> 0)"
| "truthy (Some (JStr s)) = (s \<noteq> [])"
| "truthy (Some (JArr xs)) = True"
| "truthy (Some (JObj kvs)) = True"

definition truthyE :: "json option ex \<Rightarrow> bool ex" where
  "truthyE e = (case e of Inl err \<Rightarrow> Inl err | Inr v \<Rightarrow> Inr (truthy v))"

definition falsyE :: "json option ex \<Rightarrow> bool ex" where
  "falsyE e = (case e of Inl err \<Rightarrow> Inl err | Inr v \<Rightarrow> Inr (\<not> truthy v))"

subsection \<open>The fetched data\<close>

text \<open>
  The object \<^verbatim>\<open>getFileContent\<close> returns; its field \<^verbatim>\<open>size\<close> is \<open>fsize\<close> here. Then the
  object \<^verbatim>\<open>getRepositoryDataChunked\<close> returns.
\<close>

record file_record =
  path :: string
  content :: string
  fsize :: nat
  sha :: string

record metadata =
  meta_owner :: string
  meta_repo :: string
  fetchedAt :: string
  totalFiles :: nat

record repository_data =
  packageFiles :: "file_record list"
  configFiles :: "file_record list"
  metadata :: metadata

subsection \<open>The six category checks of \<^verbatim>\<open>AuditEngine\<close>\<close>

definition addIssueS :: "string \<Rightarrow> issue \<Rightarrow> audit_report stmt" where
  "addIssueS category i r = (case addIssue r category i of Inl e \<Rightarrow> Inl (e, r) | Inr r' \<Rightarrow> Inr r')"

text \<open>\<^verbatim>\<open>targetData.packageFiles.find(f => f.path === 'package.json')\<close>\<close>

definition findRootPackage :: "repository_data \<Rightarrow> file_record option" where
  "findRootPackage targetData = find (\<lambda>f. path f = ''package.json'') (packageFiles targetData)"

definition missingRootPackage :: issue where
  "missingRootPackage = \<lparr>
     severity = Critical,
     message = ''Missing root package.json file'',
     description = ''Every monorepo should have a root package.json file'',
     file_field = ''package.json'',
     suggestion = None \<rparr>"

definition missingWorkspaces :: issue where
  "missingWorkspaces = \<lparr>
     severity = High,
     message = ''Missing workspaces configuration'',
     description = ''Monorepo should define workspaces in package.json'',
     file_field = ''package.json'',
     suggestion = Some ''Add workspaces configuration similar to boilerplate'' \<rparr>"

definition missingPackageManager :: issue where
  "missingPackageManager = \<lparr>
     severity = Medium,
     message = ''Missing packageManager field'',
     description = ''Should specify package manager version for consistency'',
     file_field = ''package.json'',
     suggestion = None \<rparr>"

definition missingEngines :: issue where
  "missingEngines = \<lparr>
     severity = Medium,
     message = ''Missing engines configuration'',
     description = ''Should specify Node.js and npm/yarn version requirements'',
     file_field = ''package.json'',
     suggestion = None \<rparr>"

definition missingMonorepoStructure :: issue where
  "missingMonorepoStructure = \<lparr>
     severity = High,
     message = ''Missing standard monorepo structure'',
     description = ''Should have apps/ or packages/ directories'',
     file_field = ''root'',
     suggestion = None \<rparr>"

text \<open>
  \<^verbatim>\<open>auditPackageStructure\<close>. Both \<^verbatim>\<open>find\<close> calls come before the test of
  \<^verbatim>\<open>rootPackage\<close>; the \<^verbatim>\<open>return\<close> after the critical finding leaves the \<^verbatim>\<open>try\<close> block.
\<close>

definition auditPackageStructure ::
  "js_runtime \<Rightarrow> repository_data \<Rightarrow> file_record list \<Rightarrow> audit_report \<Rightarrow> audit_report" where
  "auditPackageStructure rt targetData boilerplateData auditReport =
     (let category = STRUCTURE in
      tryCatch
        (let rootPackage = findRootPackage targetData;
             boilerplatePackage = find (\<lambda>f. includes_str (path f) ''package.json'') boilerplateData
         in case rootPackage of
              None \<Rightarrow> addIssueS category missingRootPackage
            | Some rootPackage \<Rightarrow>
                letS (JSON_parse rt (content rootPackage)) (\<lambda>rootPkg.
                letS (case boilerplatePackage of
                        Some b \<Rightarrow> JSON_parse rt (content b)
                      | None \<Rightarrow> Inr (JObj [])) (\<lambda>boilerplatePkg.
                seqs [
                  ifS (falsyE (getProp rootPkg ''workspaces''))
                    (addIssueS category missingWorkspaces),
                  ifS (falsyE (getProp rootPkg ''packageManager''))
                    (addIssueS category missingPackageManager),
                  ifS (falsyE (getProp rootPkg ''engines''))
                    (addIssueS category missingEngines),
                  (let hasApps = list_ex (\<lambda>f. startsWith (path f) ''apps/'')
                                   (packageFiles targetData);
                       hasPackages = list_ex (\<lambda>f. startsWith (path f) ''packages/'')
                                       (packageFiles targetData)
                   in ifS (Inr (\<not> hasApps \<and> \<not> hasPackages))
                        (addIssueS category missingMonorepoStructure))])))
        logOnly
        (initCategory category auditReport))"

definition requiredDeps :: "string list" where
  "requiredDeps = [''@dtsl/jest-config'', ''@dtsl/eslint-config'',
                   ''@dtsl/prettier-config'', ''@dtsl/typescript-config'']"

definition missingDependency :: "string \<Rightarrow> issue" where
  "missingDependency dep = \<lparr>
     severity = Medium,
     message = ''Missing DTSL common dependency: '' @ dep,
     description = ''Should use DTSL common configurations for consistency'',
     file_field = ''package.json'',
     suggestion = None \<rparr>"

definition lodashIssue :: issue where
  "lodashIssue = \<lparr>
     severity = Low,
     message = ''Consider using lodash-es instead of lodash'',
     description = ''lodash-es provides better tree-shaking support'',
     file_field = ''package.json'',
     suggestion = None \<rparr>"

text \<open>
  \<^verbatim>\<open>!rootPkg.devDependencies?.[dep] && !rootPkg.dependencies?.[dep]\<close>, the callback of the
  \<^verbatim>\<open>filter\<close> in \<^verbatim>\<open>auditDependencyManagement\<close>.
\<close>

definition isMissingDep :: "json \<Rightarrow> string \<Rightarrow> bool ex" where
  "isMissingDep rootPkg dep =
     andE (falsyE (optChain (getProp rootPkg ''devDependencies'') dep))
          (falsyE (optChain (getProp rootPkg ''dependencies'') dep))"

definition auditDependencyManagement ::
  "js_runtime \<Rightarrow> repository_data \<Rightarrow> file_record list \<Rightarrow> audit_report \<Rightarrow> audit_report" where
  "auditDependencyManagement rt targetData boilerplateData auditReport =
     (let category = DEPENDENCIES in
      tryCatch
        (case findRootPackage targetData of
           None \<Rightarrow> skip
         | Some rootPackage \<Rightarrow>
             letS (JSON_parse rt (content rootPackage)) (\<lambda>rootPkg.
             letS (filterE (isMissingDep rootPkg) requiredDeps) (\<lambda>missingDeps.
             seqs [
               forEachS missingDeps (\<lambda>dep. addIssueS category (missingDependency dep)),
               ifS (orE (truthyE (optChain (getProp rootPkg ''dependencies'') ''lodash''))
                        (truthyE (optChain (getProp rootPkg ''devDependencies'') ''lodash'')))
                 (addIssueS category lodashIssue)])))
        logOnly
        (initCategory category auditReport))"

definition missingTurbo :: issue where
  "missingTurbo = \<lparr>
     severity = High,
     message = ''Missing turbo.json configuration'',
     description = ''Monorepo should use Turborepo for build orchestration'',
     file_field = ''turbo.json'',
     suggestion = None \<rparr>"

definition missingTsConfig :: issue where
  "missingTsConfig = \<lparr>
     severity = Medium,
     message = ''Missing TypeScript configuration'',
     description = ''Should have TypeScript configuration for better development experience'',
     file_field = ''tsconfig.json'',
     suggestion = None \<rparr>"

definition missingBabel :: issue where
  "missingBabel = \<lparr>
     severity = Medium,
     message = ''Missing Babel configuration'',
     description = ''Should have Babel configuration for consistent transpilation'',
     file_field = ''babel.config.json'',
     suggestion = None \<rparr>"

definition auditBuildConfiguration ::
  "js_runtime \<Rightarrow> repository_data \<Rightarrow> file_record list \<Rightarrow> audit_report \<Rightarrow> audit_report" where
  "auditBuildConfiguration rt targetData boilerplateData auditReport =
     (let category = BUILD in
      tryCatch
        (seqs [
           (let turboConfig = find (\<lambda>f. path f = ''turbo.json'') (configFiles targetData)
            in ifS (Inr (turboConfig = None)) (addIssueS category missingTurbo)),
           (let tsConfig = find (\<lambda>f. path f = ''tsconfig.json'') (configFiles targetData)
            in ifS (Inr (tsConfig = None)) (addIssueS category missingTsConfig)),
           (let babelConfig = find (\<lambda>f. includes_str (path f) ''babel.config'')
                                (configFiles targetData)
            in ifS (Inr (babelConfig = None)) (addIssueS category missingBabel))])
        logOnly
        (initCategory category auditReport))"

definition missingESLint :: issue where
  "missingESLint = \<lparr>
     severity = High,
     message = ''Missing ESLint configuration'',
     description = ''Should have ESLint configuration for code quality'',
     file_field = ''eslint.config.js'',
     suggestion = None \<rparr>"

definition missingPrettier :: issue where
  "missingPrettier = \<lparr>
     severity = Medium,
     message = ''Missing Prettier configuration'',
     description = ''Should have Prettier configuration for consistent formatting'',
     file_field = ''prettier.config.js'',
     suggestion = None \<rparr>"

definition missingHusky :: issue where
  "missingHusky = \<lparr>
     severity = Medium,
     message = ''Missing Husky for git hooks'',
     description = ''Should use Husky for pre-commit quality checks'',
     file_field = ''package.json'',
     suggestion = None \<rparr>"

definition missingLintStaged :: issue where
  "missingLintStaged = \<lparr>
     severity = Medium,
     message = ''Missing lint-staged'',
     description = ''Should use lint-staged for efficient pre-commit linting'',
     file_field = ''package.json'',
     suggestion = None \<rparr>"

definition auditCodeQualitySetup ::
  "js_runtime \<Rightarrow> repository_data \<Rightarrow> file_record list \<Rightarrow> audit_report \<Rightarrow> audit_report" where
  "auditCodeQualitySetup rt targetData commonConfigData auditReport =
     (let category = CODE_QUALITY in
      tryCatch
        (seqs [
           (let eslintConfig = find (\<lambda>f. includes_str (path f) ''eslint.config''
                                         \<or> includes_str (path f) ''.eslintrc'')
                                 (configFiles targetData)
            in ifS (Inr (eslintConfig = None)) (addIssueS category missingESLint)),
           (let prettierConfig = find (\<lambda>f. includes_str (path f) ''prettier.config''
                                           \<or> includes_str (path f) ''.prettierrc'')
                                   (configFiles targetData)
            in ifS (Inr (prettierConfig = None)) (addIssueS category missingPrettier)),
           (case findRootPackage targetData of
              None \<Rightarrow> skip
            | Some rootPackage \<Rightarrow>
                letS (JSON_parse rt (content rootPackage)) (\<lambda>rootPkg.
                seqs [
                  ifS (falsyE (optChain (getProp rootPkg ''devDependencies'') ''husky''))
                    (addIssueS category missingHusky),
                  ifS (falsyE (optChain (getProp rootPkg ''devDependencies'') ''lint-staged''))
                    (addIssueS category missingLintStaged)]))])
        logOnly
        (initCategory category auditReport))"

definition missingJest :: issue where
  "missingJest = \<lparr>
     severity = High,
     message = ''Missing Jest configuration'',
     description = ''Should have Jest configuration for testing'',
     file_field = ''jest.config.js'',
     suggestion = None \<rparr>"

definition missingTestScript :: issue where
  "missingTestScript = \<lparr>
     severity = Medium,
     message = ''Missing test script'',
     description = ''Should have test script in package.json'',
     file_field = ''package.json'',
     suggestion = None \<rparr>"

definition missingCiTestScript :: issue where
  "missingCiTestScript = \<lparr>
     severity = Low,
     message = ''Missing CI test script'',
     description = ''Should have test:ci script for CI/CD pipelines'',
     file_field = ''package.json'',
     suggestion = None \<rparr>"

definition auditTestingSetup ::
  "js_runtime \<Rightarrow> repository_data \<Rightarrow> file_record list \<Rightarrow> audit_report \<Rightarrow> audit_report" where
  "auditTestingSetup rt targetData boilerplateData auditReport =
     (let category = TESTING in
      tryCatch
        (seqs [
           (let jestConfig = find (\<lambda>f. includes_str (path f) ''jest.config'')
                               (configFiles targetData)
            in ifS (Inr (jestConfig = None)) (addIssueS category missingJest)),
           (case findRootPackage targetData of
              None \<Rightarrow> skip
            | Some rootPackage \<Rightarrow>
                letS (JSON_parse rt (content rootPackage)) (\<lambda>rootPkg.
                seqs [
                  ifS (falsyE (optChain (getProp rootPkg ''scripts'') ''test''))
                    (addIssueS category missingTestScript),
                  ifS (falsyE (optChain (getProp rootPkg ''scripts'') ''test:ci''))
                    (addIssueS category missingCiTestScript)]))])
        logOnly
        (initCategory category auditReport))"

definition documentationPlaceholder :: issue where
  "documentationPlaceholder = \<lparr>
     severity = Low,
     message = ''Documentation audit not fully implemented'',
     description = ''README and documentation checks need to be implemented'',
     file_field = ''various'',
     suggestion = None \<rparr>"

definition auditDocumentation :: "repository_data \<Rightarrow> audit_report \<Rightarrow> audit_report" where
  "auditDocumentation targetData auditReport =
     (let category = DOCUMENTATION in
      tryCatch (addIssueS category documentationPlaceholder) logOnly
        (initCategory category auditReport))"

text \<open>
  The part of \<^verbatim>\<open>auditRepository\<close> after the three fetches: the six checks in their order,
  then the compliance score.
\<close>

definition runAuditChecks ::
  "js_runtime \<Rightarrow> repository_data \<Rightarrow> file_record list \<Rightarrow> file_record list \<Rightarrow>
   audit_report \<Rightarrow> audit_report" where
  "runAuditChecks rt targetData boilerplateData commonConfigData auditReport =
     (let r1 = auditPackageStructure rt targetData boilerplateData auditReport;
          r2 = auditDependencyManagement rt targetData boilerplateData r1;
          r3 = auditBuildConfiguration rt targetData boilerplateData r2;
          r4 = auditCodeQualitySetup rt targetData commonConfigData r3;
          r5 = auditTestingSetup rt targetData boilerplateData r4;
          r6 = auditDocumentation targetData r5
      in calculateComplianceScore r6)"

subsection \<open>The remote service\<close>

text \<open>
  \<^verbatim>\<open>octokit.rest.repos.getContent({owner, repo, path, ref})\<close> answers with an array of
  entries for a directory and with one object otherwise, or raises. An entry of a
  listing, and the object of a symlink or submodule, has no \<^verbatim>\<open>content\<close>. The service is
  a parameter: a function from the request to its outcome.
\<close>

record gh_item =
  item_name :: string
  item_path :: string
  item_type :: string
  item_size :: nat
  item_sha :: string
  item_content :: "string option"

datatype gh_data = DataArray "gh_item list" | DataObject gh_item

record client =
  octokit :: "string \<Rightarrow> string \<Rightarrow> string \<Rightarrow> string \<Rightarrow> gh_data ex"
  config :: mcp_config

subsection \<open>\<^verbatim>\<open>GitHubMCPClient.getRepositoryStructure\<close> and \<^verbatim>\<open>getFileContent\<close>\<close>

text \<open>The \<^verbatim>\<open>try\<close> block of \<^verbatim>\<open>getRepositoryStructure\<close>: the request may raise.\<close>

definition getRepositoryStructure_try ::
  "client \<Rightarrow> string \<Rightarrow> string \<Rightarrow> string \<Rightarrow> gh_item list ex" where
  "getRepositoryStructure_try c owner repo p =
     (case octokit c owner repo p (target_branch (config c)) of
        Inl e \<Rightarrow> Inl e
      | Inr data \<Rightarrow> Inr (case data of DataArray xs \<Rightarrow> xs | DataObject d \<Rightarrow> [d]))"

text \<open>The \<^verbatim>\<open>catch\<close> of \<^verbatim>\<open>getRepositoryStructure\<close> returns \<^verbatim>\<open>[]\<close> for every error.\<close>

definition getRepositoryStructure :: "client \<Rightarrow> string \<Rightarrow> string \<Rightarrow> string \<Rightarrow> gh_item list" where
  "getRepositoryStructure c owner repo p =
     (case getRepositoryStructure_try c owner repo p of Inl e \<Rightarrow> [] | Inr xs \<Rightarrow> xs)"

text \<open>
  The \<^verbatim>\<open>try\<close> block of \<^verbatim>\<open>getFileContent\<close>. On an array \<^verbatim>\<open>data.size\<close> is \<^verbatim>\<open>undefined\<close>, the
  comparison is false, and \<^verbatim>\<open>Buffer.from(undefined, 'base64')\<close> raises a \<^verbatim>\<open>TypeError\<close>; so
  does an object without \<^verbatim>\<open>content\<close>.
\<close>

definition getFileContent_try ::
  "js_runtime \<Rightarrow> client \<Rightarrow> string \<Rightarrow> string \<Rightarrow> string \<Rightarrow> file_record option ex" where
  "getFileContent_try rt c owner repo p =
     (case octokit c owner repo p (target_branch (config c)) of
        Inl e \<Rightarrow> Inl e
      | Inr (DataArray xs) \<Rightarrow> Inl TypeError
      | Inr (DataObject data) \<Rightarrow>
          if item_size data > maxFileSize (config c) then Inr None
          else (case item_content data of
                  None \<Rightarrow> Inl TypeError
                | Some b \<Rightarrow> Inr (Some \<lparr> path = item_path data,
                                        content = base64_utf8 rt b,
                                        fsize = item_size data,
                                        sha = item_sha data \<rparr>)))"

text \<open>The \<^verbatim>\<open>catch\<close> of \<^verbatim>\<open>getFileContent\<close> returns \<^verbatim>\<open>null\<close> for every error.\<close>

definition getFileContent ::
  "js_runtime \<Rightarrow> client \<Rightarrow> string \<Rightarrow> string \<Rightarrow> string \<Rightarrow> file_record option" where
  "getFileContent rt c owner repo p =
     (case getFileContent_try rt c owner repo p of Inl e \<Rightarrow> None | Inr x \<Rightarrow> x)"

text \<open>
  \<^verbatim>\<open>const f = await this.getFileContent(owner, repo, p); if (f) { files.push(f); }\<close>,
  the body every collector repeats.
\<close>

definition pushFile ::
  "js_runtime \<Rightarrow> client \<Rightarrow> string \<Rightarrow> string \<Rightarrow> string \<Rightarrow> file_record list stmt" where
  "pushFile rt c owner repo p files =
     (case getFileContent rt c owner repo p of
        None \<Rightarrow> Inr files
      | Some f \<Rightarrow> Inr (files @ [f]))"

subsection \<open>\<^verbatim>\<open>GitHubMCPClient.matchesPattern\<close>\<close>

text \<open>
  \<^verbatim>\<open>pattern.replace('*', '.*')\<close> with a string as first argument replaces the first
  occurrence only.
\<close>

fun replaceFirstStar :: "string \<Rightarrow> string" where
  "replaceFirstStar [] = []"
| "replaceFirstStar (c # cs) =
     (if c = CHR ''*'' then ''.*'' @ cs else c # replaceFirstStar cs)"

text \<open>
  \<^verbatim>\<open>new RegExp(source)\<close>, for sources made of ordinary characters, \<^verbatim>\<open>.\<close> and the postfix
  \<^verbatim>\<open>*\<close>: the fragment the patterns of \<^verbatim>\<open>getConfigFiles\<close> stay in. A \<^verbatim>\<open>*\<close> with nothing
  to repeat is a \<^verbatim>\<open>SyntaxError\<close>; any other metacharacter is answered with
  \<open>NotModelled\<close>. Without the \<^verbatim>\<open>s\<close> flag \<^verbatim>\<open>.\<close> matches every character except a line
  terminator.
\<close>

datatype rx_atom = RChar char | RAny

datatype rx_piece = ROne rx_atom | RStar rx_atom

definition rx_metachars :: "char list" where
  "rx_metachars = [CHR 0x5C, CHR ''^'', CHR ''$'', CHR ''+'', CHR ''?'', CHR ''('', CHR '')'',
                   CHR ''['', CHR '']'', CHR ''{'', CHR ''}'', CHR ''|'']"

definition rx_atom_of :: "char \<Rightarrow> rx_atom" where
  "rx_atom_of c = (if c = CHR ''.'' then RAny else RChar c)"

fun RegExp :: "string \<Rightarrow> rx_piece list ex" where
  "RegExp [] = Inr []"
| "RegExp (c # cs) =
     (if c = CHR ''*'' then Inl SyntaxError
      else if c \<in> set rx_metachars then Inl NotModelled
      else (case cs of
              [] \<Rightarrow> Inr [ROne (rx_atom_of c)]
            | d # ds \<Rightarrow>
                if d = CHR ''*''
                then (case RegExp ds of
                        Inl e \<Rightarrow> Inl e
                      | Inr ps \<Rightarrow> Inr (RStar (rx_atom_of c) # ps))
                else (case RegExp cs of
                        Inl e \<Rightarrow> Inl e
                      | Inr ps \<Rightarrow> Inr (ROne (rx_atom_of c) # ps))))"

fun rx_atom_ok :: "rx_atom \<Rightarrow> char \<Rightarrow> bool" where
  "rx_atom_ok (RChar a) c = (c = a)"
| "rx_atom_ok RAny c = (c \<noteq> CHR 0x0A \<and> c \<noteq> CHR 0x0D)"

text \<open>A match of the whole regular expression starting at the head of the text.\<close>

fun rx_here :: "rx_piece list \<Rightarrow> string \<Rightarrow> bool" where
  "rx_here [] s = True"
| "rx_here (ROne a # ps) [] = False"
| "rx_here (ROne a # ps) (c # s) = (rx_atom_ok a c \<and> rx_here ps s)"
| "rx_here (RStar a # ps) [] = rx_here ps []"
| "rx_here (RStar a # ps) (c # s) =
     (rx_here ps (c # s) \<or> (rx_atom_ok a c \<and> rx_here (RStar a # ps) s))"

text \<open>\<^verbatim>\<open>regex.test(s)\<close>: a match starting anywhere.\<close>

fun rx_test :: "rx_piece list \<Rightarrow> string \<Rightarrow> bool" where
  "rx_test ps [] = rx_here ps []"
| "rx_test ps (c # s) = (rx_here ps (c # s) \<or> rx_test ps s)"

definition matchesPattern :: "string \<Rightarrow> string list \<Rightarrow> bool ex" where
  "matchesPattern filename patterns =
     someE (\<lambda>pattern.
        case RegExp (replaceFirstStar pattern) of
          Inl e \<Rightarrow> Inl e
        | Inr regex \<Rightarrow> Inr (rx_test regex filename)) patterns"

text \<open>
  The matching the specification describes: every \<^verbatim>\<open>*\<close> of the pattern stands for any
  substring, every other character for itself, and the pattern may match anywhere in
  the name.
\<close>

fun glob_here :: "string \<Rightarrow> string \<Rightarrow> bool" where
  "glob_here [] s = True"
| "glob_here (p # ps) [] = (p = CHR ''*'' \<and> glob_here ps [])"
| "glob_here (p # ps) (c # s) =
     (if p = CHR ''*'' then glob_here ps (c # s) \<or> glob_here (p # ps) s
      else c = p \<and> glob_here ps s)"

fun glob_test :: "string \<Rightarrow> string \<Rightarrow> bool" where
  "glob_test p [] = glob_here p []"
| "glob_test p (c # s) = (glob_here p (c # s) \<or> glob_test p s)"

definition spec_matchesPattern :: "string \<Rightarrow> string list \<Rightarrow> bool" where
  "spec_matchesPattern filename patterns = list_ex (\<lambda>pattern. glob_test pattern filename) patterns"

subsection \<open>The collectors of \<^verbatim>\<open>GitHubMCPClient\<close>\<close>

text \<open>
  \<^verbatim>\<open>getPackageJsonFiles\<close>. Its \<^verbatim>\<open>catch\<close> returns the array as far as it was filled.
\<close>

definition getPackageJsonFiles ::
  "js_runtime \<Rightarrow> client \<Rightarrow> string \<Rightarrow> string \<Rightarrow> file_record list" where
  "getPackageJsonFiles rt c owner repo =
     tryCatch
       (seq (pushFile rt c owner repo ''package.json'')
          (let appsStructure = getRepositoryStructure c owner repo ''apps'';
               packagesStructure = getRepositoryStructure c owner repo ''packages''
           in seq
                (forEachS appsStructure (\<lambda>item.
                   ifS (Inr (item_type item = ''dir''))
                     (pushFile rt c owner repo (item_path item @ ''/package.json''))))
                (forEachS packagesStructure (\<lambda>item.
                   ifS (Inr (item_type item = ''dir''))
                     (pushFile rt c owner repo (item_path item @ ''/package.json''))))))
       logOnly
       []"

definition configPatterns :: "string list" where
  "configPatterns = [''babel.config.*'', ''jest.config.*'', ''webpack.config.*'',
                     ''tsconfig.json'', ''jsconfig.json'', ''eslint.config.*'',
                     ''prettier.config.*'', ''turbo.json'']"

text \<open>
  \<^verbatim>\<open>getConfigFiles\<close>. The default argument \<^verbatim>\<open>path = ''\<close> lists the root. Its \<^verbatim>\<open>catch\<close>
  returns the array as far as it was filled.
\<close>

definition getConfigFiles ::
  "js_runtime \<Rightarrow> client \<Rightarrow> string \<Rightarrow> string \<Rightarrow> file_record list" where
  "getConfigFiles rt c owner repo =
     tryCatch
       (let rootStructure = getRepositoryStructure c owner repo []
        in seq
             (forEachS rootStructure (\<lambda>item.
                ifS (andE (Inr (item_type item = ''file''))
                          (matchesPattern (item_name item) configPatterns))
                  (pushFile rt c owner repo (item_path item))))
             (let configDir = getRepositoryStructure c owner repo ''config''
              in forEachS configDir (\<lambda>item.
                   ifS (Inr (item_type item = ''file''))
                     (pushFile rt c owner repo (item_path item)))))
       logOnly
       []"

definition keyFiles :: "string list" where
  "keyFiles = [''package.json'', ''babel.config.json'', ''jest.config.js'',
               ''tsconfig.json'', ''turbo.json'']"

text \<open>
  \<^verbatim>\<open>getBoilerplateTemplate\<close>. The listing \<^verbatim>\<open>templateStructure\<close> is fetched and not used.
  Its \<^verbatim>\<open>catch\<close> returns \<^verbatim>\<open>[]\<close>.
\<close>

definition getBoilerplateTemplate :: "js_runtime \<Rightarrow> client \<Rightarrow> file_record list" where
  "getBoilerplateTemplate rt c =
     (let owner = boilerplate_owner (config c);
          repo = boilerplate_repo (config c);
          p = boilerplate_path (config c)
      in tryCatch
           (let templateStructure = getRepositoryStructure c owner repo p
            in forEachS keyFiles (\<lambda>fileName.
                 let filePath = (if p \<noteq> [] then p @ ''/'' @ fileName else fileName)
                 in pushFile rt c owner repo filePath))
           (\<lambda>e files. [])
           [])"

text \<open>
  \<^verbatim>\<open>getCommonConfig\<close>. The condition is written
  \<^verbatim>\<open>item.type === 'file' && item.name.endsWith('.json') || item.name.endsWith('.js')\<close>,
  and \<^verbatim>\<open>&&\<close> binds tighter than \<^verbatim>\<open>||\<close>. Its \<^verbatim>\<open>catch\<close> returns \<^verbatim>\<open>[]\<close>.
\<close>

definition getCommonConfig :: "js_runtime \<Rightarrow> client \<Rightarrow> file_record list" where
  "getCommonConfig rt c =
     (let owner = commonConfig_owner (config c);
          repo = commonConfig_repo (config c)
      in tryCatch
           (let configStructure = getRepositoryStructure c owner repo []
            in forEachS configStructure (\<lambda>item.
                 ifS (Inr ((item_type item = ''file'' \<and> endsWith (item_name item) ''.json'')
                           \<or> endsWith (item_name item) ''.js''))
                   (pushFile rt c owner repo (item_path item))))
           (\<lambda>e files. [])
           [])"

text \<open>
  \<^verbatim>\<open>getRepositoryDataChunked\<close>. The two collectors catch every exception themselves and
  the delays only wait, so no statement of the \<^verbatim>\<open>try\<close> block raises; the \<^verbatim>\<open>catch\<close>, which
  would raise the error again, is the \<open>Inl\<close> branch.
\<close>

definition getRepositoryDataChunked_try ::
  "js_runtime \<Rightarrow> client \<Rightarrow> string \<Rightarrow> string \<Rightarrow> repository_data ex" where
  "getRepositoryDataChunked_try rt c owner repo =
     (let repositoryData = \<lparr>
            packageFiles = [],
            configFiles = [],
            metadata = \<lparr> meta_owner = owner, meta_repo = repo,
                         fetchedAt = now_iso rt, totalFiles = 0 \<rparr> \<rparr>;
          repositoryData = repositoryData\<lparr>packageFiles := getPackageJsonFiles rt c owner repo\<rparr>;
          repositoryData = repositoryData\<lparr>configFiles := getConfigFiles rt c owner repo\<rparr>;
          repositoryData = repositoryData\<lparr>metadata := (metadata repositoryData)\<lparr>totalFiles :=
              length (packageFiles repositoryData) + length (configFiles repositoryData)\<rparr>\<rparr>
      in Inr repositoryData)"

definition getRepositoryDataChunked ::
  "js_runtime \<Rightarrow> client \<Rightarrow> string \<Rightarrow> string \<Rightarrow> repository_data ex" where
  "getRepositoryDataChunked rt c owner repo =
     (case getRepositoryDataChunked_try rt c owner repo of
        Inl e \<Rightarrow> Inl e
      | Inr repositoryData \<Rightarrow> Inr repositoryData)"

subsection \<open>\<^verbatim>\<open>AuditEngine.auditRepository\<close>\<close>

definition auditRepository ::
  "js_runtime \<Rightarrow> client \<Rightarrow> string \<Rightarrow> string \<Rightarrow> audit_report ex" where
  "auditRepository rt c owner repo =
     (let auditReport = newAuditReport owner repo (now_iso rt)
      in case getRepositoryDataChunked rt c owner repo of
           Inl e \<Rightarrow> Inl e
         | Inr targetData \<Rightarrow>
             let boilerplateData = getBoilerplateTemplate rt c;
                 commonConfigData = getCommonConfig rt c
             in Inr (runAuditChecks rt targetData boilerplateData commonConfigData auditReport))"

subsection \<open>Notions used in the statements\<close>

text \<open>The unweighted arithmetic mean of the specification, and the scores it is taken of.\<close>

definition mean :: "int list \<Rightarrow> rat" where
  "mean xs = of_int (sum_list xs) / of_nat (length xs)"

definition categoryScores :: "audit_report \<Rightarrow> int list" where
  "categoryScores r = map (\<lambda>p. score (snd p)) (categories r)"

text \<open>What \<^verbatim>\<open>addIssue\<close> does to the summary, in one piece.\<close>

definition countFinding :: "severity \<Rightarrow> summary \<Rightarrow> summary" where
  "countFinding sev s =
     (let s1 = s\<lparr>totalIssues := totalIssues s + 1\<rparr>
      in case sev of
           Critical \<Rightarrow> s1\<lparr>criticalIssues := criticalIssues s1 + 1\<rparr>
         | High \<Rightarrow> s1\<lparr>highIssues := highIssues s1 + 1\<rparr>
         | Medium \<Rightarrow> s1\<lparr>mediumIssues := mediumIssues s1 + 1\<rparr>
         | Low \<Rightarrow> s1\<lparr>lowIssues := lowIssues s1 + 1\<rparr>
         | Info \<Rightarrow> s1)"

text \<open>
  A statement preserves a property of the state when the property holds after it, both
  when it completes and, of the state left behind, when it raises.
\<close>

definition preserves :: "('s \<Rightarrow> bool) \<Rightarrow> 's stmt \<Rightarrow> bool" where
  "preserves P a = (\<forall>s. P s \<longrightarrow> (case a s of Inl (e, s') \<Rightarrow> P s' | Inr s' \<Rightarrow> P s'))"

text \<open>
  Two reports with the same category names in the same order, the same entry for every
  category but \<open>c\<close>, and an entry for \<open>c\<close>.
\<close>

definition sameOutside :: "string \<Rightarrow> audit_report \<Rightarrow> audit_report \<Rightarrow> bool" where
  "sameOutside c r0 r =
     (map fst (categories r) = map fst (categories r0)
      \<and> (\<forall>c'. c' \<noteq> c \<longrightarrow> map_of (categories r) c' = map_of (categories r0) c')
      \<and> map_of (categories r) c \<noteq> None)"

text \<open>Every record of a list is within the configured maximum file size.\<close>

definition withinLimit :: "client \<Rightarrow> file_record list \<Rightarrow> bool" where
  "withinLimit c files = list_all (\<lambda>f. fsize f \<le> maxFileSize (config c)) files"

subsection \<open>Concrete inputs\<close>

text \<open>
  A runtime given by tables: \<^verbatim>\<open>JSON.parse\<close> and the base64 decoding on the few texts of
  the examples, with the values the built-ins have there.
\<close>

definition manifestText :: string where
  "manifestText = ''{\"devDependencies\":{\"@dtsl/jest-config\":\"1.0.0\"}}''"

definition manifestJson :: json where
  "manifestJson = JObj [(''devDependencies'', JObj [(''@dtsl/jest-config'', JStr ''1.0.0'')])]"

definition emptyVersionText :: string where
  "emptyVersionText = ''{\"devDependencies\":{\"@dtsl/jest-config\":\"\"}}''"

definition emptyVersionJson :: json where
  "emptyVersionJson = JObj [(''devDependencies'', JObj [(''@dtsl/jest-config'', JStr [])])]"

definition exampleRuntime :: js_runtime where
  "exampleRuntime = \<lparr>
     JSON_parse = (\<lambda>s. if s = manifestText then Inr manifestJson
                        else if s = emptyVersionText then Inr emptyVersionJson
                        else if s = ''{}'' then Inr (JObj [])
                        else Inl SyntaxError),
     base64_utf8 = (\<lambda>s. if s = ''e30='' then ''{}'' else []),
     now_iso = ''2024-01-01T00:00:00.000Z'' \<rparr>"

definition exampleMetadata :: metadata where
  "exampleMetadata = \<lparr> meta_owner = ''DTSL'', meta_repo = ''dnd-editor'',
                        fetchedAt = ''2024-01-01T00:00:00.000Z'', totalFiles = 1 \<rparr>"

text \<open>A repository with one workspace manifest and no root manifest.\<close>

definition targetWithoutRoot :: repository_data where
  "targetWithoutRoot = \<lparr>
     packageFiles = [\<lparr> path = ''apps/web/package.json'', content = ''{}'', fsize = 2,
                       sha = ''a1'' \<rparr>],
     configFiles = [],
     metadata = exampleMetadata \<rparr>"

text \<open>A report whose six categories have the scores of the example of the specification.\<close>

definition exampleScores :: audit_report where
  "exampleScores = (newAuditReport ''DTSL'' ''dnd-editor'' ''2024-01-01T00:00:00.000Z'')
     \<lparr>categories := [(STRUCTURE, \<lparr>issues = [], score = 100\<rparr>),
                     (DEPENDENCIES, \<lparr>issues = [], score = 75\<rparr>),
                     (BUILD, \<lparr>issues = [], score = 90\<rparr>),
                     (CODE_QUALITY, \<lparr>issues = [], score = 60\<rparr>),
                     (TESTING, \<lparr>issues = [], score = 85\<rparr>),
                     (DOCUMENTATION, \<lparr>issues = [], score = 95\<rparr>)]\<rparr>"

text \<open>Two repositories whose root manifest is the text of the example, once with a
  version and once with the empty version.\<close>

definition targetWithManifest :: repository_data where
  "targetWithManifest = \<lparr>
     packageFiles = [\<lparr> path = ''package.json'', content = manifestText, fsize = 49,
                       sha = ''f1'' \<rparr>],
     configFiles = [],
     metadata = exampleMetadata \<rparr>"

definition targetEmptyVersion :: repository_data where
  "targetEmptyVersion = \<lparr>
     packageFiles = [\<lparr> path = ''package.json'', content = emptyVersionText, fsize = 44,
                       sha = ''f2'' \<rparr>],
     configFiles = [],
     metadata = exampleMetadata \<rparr>"

text \<open>
  A remote service given by a table. The target repository has a root manifest of two
  million bytes (the service sends such a file with an empty \<^verbatim>\<open>content\<close>) and a
  \<^verbatim>\<open>turbo.json\<close>; the shared-config repository has \<^verbatim>\<open>index.js\<close> and a symlink
  \<^verbatim>\<open>setup.js\<close> to a file, which the listing shows with the type \<^verbatim>\<open>symlink\<close> and a
  request for its path answers with the file it points to.
\<close>

definition bigManifest :: gh_item where
  "bigManifest = \<lparr> item_name = ''package.json'', item_path = ''package.json'',
                    item_type = ''file'', item_size = 2000000, item_sha = ''b1'',
                    item_content = Some [] \<rparr>"

definition turboFile :: gh_item where
  "turboFile = \<lparr> item_name = ''turbo.json'', item_path = ''turbo.json'',
                  item_type = ''file'', item_size = 2, item_sha = ''c1'',
                  item_content = Some ''e30='' \<rparr>"

definition indexFile :: gh_item where
  "indexFile = \<lparr> item_name = ''index.js'', item_path = ''index.js'',
                  item_type = ''file'', item_size = 2, item_sha = ''d1'',
                  item_content = Some ''e30='' \<rparr>"

definition setupTarget :: gh_item where
  "setupTarget = \<lparr> item_name = ''setup.js'', item_path = ''setup.js'',
                    item_type = ''file'', item_size = 2, item_sha = ''e1'',
                    item_content = Some ''e30='' \<rparr>"

text \<open>An entry as a directory listing shows it: without \<^verbatim>\<open>content\<close>.\<close>

definition listed :: "gh_item \<Rightarrow> gh_item" where
  "listed item = item\<lparr>item_content := None\<rparr>"

definition exampleService :: "string \<Rightarrow> string \<Rightarrow> string \<Rightarrow> string \<Rightarrow> gh_data ex" where
  "exampleService owner repo p ref =
     (if repo = ''dnd-editor'' then
        (if p = [] then Inr (DataArray [listed bigManifest, listed turboFile])
         else if p = ''package.json'' then Inr (DataObject bigManifest)
         else if p = ''turbo.json'' then Inr (DataObject turboFile)
         else Inl NotFoundError)
      else if repo = ''fe-common-config'' then
        (if p = [] then Inr (DataArray [listed indexFile,
                                        listed (setupTarget\<lparr>item_type := ''symlink''\<rparr>)])
         else if p = ''index.js'' then Inr (DataObject indexFile)
         else if p = ''setup.js'' then Inr (DataObject setupTarget)
         else Inl NotFoundError)
      else Inl NotFoundError)"

definition exampleClient :: client where
  "exampleClient = \<lparr> octokit = exampleService, config = MCP_CONFIG \<rparr>"

text \<open>A service where every request fails with a network error.\<close>

definition failingClient :: client where
  "failingClient = \<lparr> octokit = (\<lambda>owner repo p ref. Inl TransientError), config = MCP_CONFIG \<rparr>"

section \<open>Properties of the audit engine\<close>

subsection \<open>Auxiliary facts\<close>

lemma penalty_nonneg: "0 \<le> penalty s"
  by (cases s) simp_all

lemma penalties_nonneg: "0 \<le> penalties is"
  unfolding penalties_def by (induction "is") (simp_all add: penalty_nonneg)

lemma addIssue_result:
  assumes "map_of (categories r) c = Some cr"
  shows "\<exists>r'. addIssue r c i = Inr r'
           \<and> categories r' = AList.update c
                 \<lparr>issues = issues cr @ [i], score = max 0 (score cr - penalty (severity i))\<rparr>
                 (categories r)"
  using assms by (cases cr; cases "severity i") (simp_all add: addIssue_def)

lemma addIssue_Inl: "map_of (categories r) c = None \<Longrightarrow> addIssue r c i = Inl TypeError"
  by (simp add: addIssue_def)

lemma clamp_twice: "0 \<le> q \<Longrightarrow> max 0 (max 0 (s - p) - q) = max (0::int) (s - (p + q))"
  by linarith

lemma recorded_Cons:
  "recorded c ((c', i) # ops) = (if c' = c then i # recorded c ops else recorded c ops)"
  by (simp add: recorded_def)

lemma addIssues_category:
  assumes "map_of (categories r) c = Some cr"
      and "\<forall>op \<in> set ops. map_of (categories r) (fst op) \<noteq> None"
  shows "\<exists>r' cr'. addIssues r ops = Inr r' \<and> map_of (categories r') c = Some cr'
           \<and> issues cr' = issues cr @ recorded c ops
           \<and> score cr' = (if recorded c ops = [] then score cr else max 0 (score cr - penalties (recorded c ops)))"
  using assms
proof (induction ops arbitrary: r cr)
  case Nil
  then show ?case by (simp add: recorded_def)
next
  case (Cons op ops)
  obtain c' i where op: "op = (c', i)" by (cases op)
  from Cons.prems(2) op obtain cr0 where cr0: "map_of (categories r) c' = Some cr0" by auto
  from addIssue_result[OF cr0, of i] obtain r1 where
    r1: "addIssue r c' i = Inr r1"
    and cats: "categories r1 = AList.update c'
                 \<lparr>issues = issues cr0 @ [i], score = max 0 (score cr0 - penalty (severity i))\<rparr>
                 (categories r)" by blast
  have dom: "\<forall>op \<in> set ops. map_of (categories r1) (fst op) \<noteq> None"
    using Cons.prems(2) by (simp add: cats AList.update_conv')
  show ?case
  proof (cases "c' = c")
    case True
    then have cr0_eq: "cr0 = cr" using cr0 Cons.prems(1) by simp
    have m1: "map_of (categories r1) c =
                Some \<lparr>issues = issues cr @ [i], score = max 0 (score cr - penalty (severity i))\<rparr>"
      using True cr0_eq by (simp add: cats AList.update_conv')
    from Cons.IH[OF m1 dom] obtain r' cr' where
      "addIssues r1 ops = Inr r'" "map_of (categories r') c = Some cr'"
      "issues cr' = (issues cr @ [i]) @ recorded c ops"
      "score cr' = (if recorded c ops = [] then max 0 (score cr - penalty (severity i))
                    else max 0 (max 0 (score cr - penalty (severity i)) - penalties (recorded c ops)))"
      by auto
    then show ?thesis
      using True op r1 penalties_nonneg[of "recorded c ops"]
      by (auto simp: recorded_Cons penalties_def clamp_twice)
  next
    case False
    have m1: "map_of (categories r1) c = Some cr"
      using False Cons.prems(1) by (simp add: cats AList.update_conv')
    from Cons.IH[OF m1 dom] show ?thesis
      using False op r1 by (auto simp: recorded_Cons)
  qed
qed

lemma sum_length_update:
  "map_of al k = Some v \<Longrightarrow>
     (\<Sum>cr\<leftarrow>map snd (AList.update k v' al). length (issues cr)) + length (issues v)
       = (\<Sum>cr\<leftarrow>map snd al. length (issues cr)) + length (issues v')"
  by (induction al) (auto split: if_splits)

lemma scores_update_same:
  "map_of al k = Some v \<Longrightarrow> score v' = score v \<Longrightarrow>
     map (\<lambda>p. (fst p, score (snd p))) (AList.update k v' al) = map (\<lambda>p. (fst p, score (snd p))) al"
  by (induction al) (auto split: if_splits)

lemma set_update_subset: "set (AList.update k v al) \<subseteq> insert (k, v) (set al)"
  by (induction al) auto

lemma addIssue_summary:
  assumes "addIssue r c i = Inr r'"
  shows "totalIssues (summary r') = totalIssues (summary r) + 1"
    and "criticalIssues (summary r') + highIssues (summary r') + mediumIssues (summary r')
           + lowIssues (summary r')
         = criticalIssues (summary r) + highIssues (summary r) + mediumIssues (summary r)
           + lowIssues (summary r) + (if severity i = Info then 0 else 1)"
  using assms
  by (auto simp: addIssue_def Let_def split: option.splits severity.splits)

lemma addIssue_info_summary:
  assumes "addIssue r c i = Inr r'" "severity i = Info"
  shows "criticalIssues (summary r') = criticalIssues (summary r)"
    and "highIssues (summary r') = highIssues (summary r)"
    and "mediumIssues (summary r') = mediumIssues (summary r)"
    and "lowIssues (summary r') = lowIssues (summary r)"
  using assms
  by (auto simp: addIssue_def Let_def split: option.splits)

lemma addIssue_cases:
  assumes "addIssue r c i = Inr r'"
  obtains cr where "map_of (categories r) c = Some cr"
    and "categories r' = AList.update c
           \<lparr>issues = issues cr @ [i], score = max 0 (score cr - penalty (severity i))\<rparr>
           (categories r)"
proof -
  from assms obtain cr where cr: "map_of (categories r) c = Some cr"
    by (auto simp: addIssue_def split: option.splits)
  from addIssue_result[OF cr, of i] assms cr show ?thesis
    using that by auto
qed

lemma addIssue_sum_length:
  assumes "addIssue r c i = Inr r'"
  shows "(\<Sum>cr\<leftarrow>map snd (categories r'). length (issues cr))
           = (\<Sum>cr\<leftarrow>map snd (categories r). length (issues cr)) + 1"
proof -
  from assms obtain cr where cr: "map_of (categories r) c = Some cr"
    and cats: "categories r' = AList.update c
           \<lparr>issues = issues cr @ [i], score = max 0 (score cr - penalty (severity i))\<rparr>
           (categories r)"
    by (rule addIssue_cases)
  from sum_length_update[OF cr, of "\<lparr>issues = issues cr @ [i], score = max 0 (score cr - penalty (severity i))\<rparr>"]
  show ?thesis by (simp add: cats)
qed

lemma addIssue_scores_nonneg:
  assumes "addIssue r c i = Inr r'" "\<forall>p \<in> set (categories r). 0 \<le> score (snd p)"
  shows "\<forall>p \<in> set (categories r'). 0 \<le> score (snd p)"
proof -
  from assms(1) obtain cr where cr: "map_of (categories r) c = Some cr"
    and cats: "categories r' = AList.update c
           \<lparr>issues = issues cr @ [i], score = max 0 (score cr - penalty (severity i))\<rparr>
           (categories r)"
    by (rule addIssue_cases)
  show ?thesis
    using assms(2) set_update_subset[of c _ "categories r"] unfolding cats by fastforce
qed

lemma addIssues_invariants:
  assumes "addIssues r ops = Inr r'"
  shows "totalIssues (summary r') = totalIssues (summary r) + length ops"
    and "(\<Sum>cr\<leftarrow>map snd (categories r'). length (issues cr))
           = (\<Sum>cr\<leftarrow>map snd (categories r). length (issues cr)) + length ops"
    and "criticalIssues (summary r') + highIssues (summary r') + mediumIssues (summary r')
           + lowIssues (summary r')
         = criticalIssues (summary r) + highIssues (summary r) + mediumIssues (summary r)
           + lowIssues (summary r) + length (filter (\<lambda>op. severity (snd op) \<noteq> Info) ops)"
    and "(\<forall>p \<in> set (categories r). 0 \<le> score (snd p))
           \<Longrightarrow> (\<forall>p \<in> set (categories r'). 0 \<le> score (snd p))"
  using assms
proof (induction ops arbitrary: r)
  case Nil
  { case 1 then show ?case by simp }
  { case 2 then show ?case by simp }
  { case 3 then show ?case by simp }
  { case 4 then show ?case by simp }
next
  case (Cons op ops)
  { case 1
    then obtain c i r1 where "op = (c, i)" "addIssue r c i = Inr r1" "addIssues r1 ops = Inr r'"
      by (cases op) (auto split: sum.splits)
    then show ?case using Cons.IH(1)[of r1] addIssue_summary(1)[of r c i r1] by simp }
  { case 2
    then obtain c i r1 where "op = (c, i)" "addIssue r c i = Inr r1" "addIssues r1 ops = Inr r'"
      by (cases op) (auto split: sum.splits)
    then show ?case using Cons.IH(2)[of r1] addIssue_sum_length[of r c i r1] by simp }
  { case 3
    then obtain c i r1 where "op = (c, i)" "addIssue r c i = Inr r1" "addIssues r1 ops = Inr r'"
      by (cases op) (auto split: sum.splits)
    then show ?case using Cons.IH(3)[of r1] addIssue_summary(2)[of r c i r1] by simp }
  { case 4
    then obtain c i r1 where "op = (c, i)" "addIssue r c i = Inr r1" "addIssues r1 ops = Inr r'"
      by (cases op) (auto split: sum.splits)
    then show ?case using Cons.IH(4)[of r1] addIssue_scores_nonneg[of r c i r1] 4 by blast }
qed

lemma addIssues_total:
  assumes "\<forall>op \<in> set ops. map_of (categories r) (fst op) \<noteq> None"
  shows "\<exists>r'. addIssues r ops = Inr r'"
proof (cases "categories r")
  case Nil
  with assms have "ops = []" by (cases ops) auto
  then show ?thesis by simp
next
  case (Cons p ps)
  then have "map_of (categories r) (fst p) = Some (snd p)" by simp
  from addIssues_category[OF this assms] show ?thesis by blast
qed

lemma foldl_add_sum_list: "foldl (\<lambda>sum score. sum + score) a xs = a + sum_list (xs :: int list)"
  by (induction xs arbitrary: a) simp_all

lemma calculateComplianceScore_value:
  "complianceScore (summary (calculateComplianceScore r))
     = Math_round (js_div (sum_list (categoryScores r)) (length (categoryScores r)))"
  by (simp add: calculateComplianceScore_def Let_def categoryScores_def foldl_add_sum_list comp_def)

lemma calculateComplianceScore_categories [simp]:
  "categories (calculateComplianceScore r) = categories r"
  by (simp add: calculateComplianceScore_def Let_def)

lemma Math_round_nearest:
  assumes "xs \<noteq> []"
  shows "\<exists>k::int. Math_round (js_div (sum_list xs) (length xs)) = Num (of_int k)
           \<and> mean xs - 1 / 2 < of_int k \<and> of_int k \<le> mean xs + 1 / 2"
proof -
  let ?q = "mean xs + 1 / 2"
  have "Math_round (js_div (sum_list xs) (length xs)) = Num (of_int \<lfloor>?q\<rfloor>)"
    using assms by (simp add: js_div_def mean_def)
  moreover have "of_int \<lfloor>?q\<rfloor> \<le> ?q" by (rule of_int_floor_le)
  moreover have "?q < of_int \<lfloor>?q\<rfloor> + 1" by linarith
  ultimately show ?thesis by (intro exI[of _ "\<lfloor>?q\<rfloor>"]) auto
qed

lemma example_k:
  assumes "mean [100, 75, 90, 60, 85, 95] - 1 / 2 < of_int k" "of_int k \<le> mean [100, 75, 90, 60, 85, 95] + 1 / 2"
  shows "k = 84"
proof -
  have m: "mean [100, 75, 90, 60, 85, 95] = 505 / 6" by (simp add: mean_def)
  from assms have "(83::rat) < of_int k" "(of_int k :: rat) < 85" unfolding m by simp_all
  then have "83 < k" "k < 85" by linarith+
  then show ?thesis by simp
qed

lemma preservesI:
  "(\<And>s. P s \<Longrightarrow> (case a s of Inl (e, s') \<Rightarrow> P s' | Inr s' \<Rightarrow> P s')) \<Longrightarrow> preserves P a"
  by (simp add: preserves_def)

lemma preserves_skip: "preserves P skip"
  by (simp add: preserves_def skip_def)

lemma preserves_Inl: "preserves P a \<Longrightarrow> P s \<Longrightarrow> a s = Inl (e, s') \<Longrightarrow> P s'"
  unfolding preserves_def by (drule spec[of _ s]) simp

lemma preserves_Inr: "preserves P a \<Longrightarrow> P s \<Longrightarrow> a s = Inr s' \<Longrightarrow> P s'"
  unfolding preserves_def by (drule spec[of _ s]) simp

lemma preserves_seq:
  assumes "preserves P a" "preserves P b"
  shows "preserves P (seq a b)"
proof (rule preservesI)
  fix s assume s: "P s"
  show "case seq a b s of Inl (e, s') \<Rightarrow> P s' | Inr s' \<Rightarrow> P s'"
  proof (cases "a s")
    case (Inl x)
    then obtain e s' where "a s = Inl (e, s')" by (cases x) simp
    with preserves_Inl[OF assms(1) s] show ?thesis by (simp add: seq_def)
  next
    case (Inr s1)
    with preserves_Inr[OF assms(1) s] have s1: "P s1" by simp
    show ?thesis
    proof (cases "b s1")
      case (Inl x)
      then obtain e s' where "b s1 = Inl (e, s')" by (cases x) simp
      with preserves_Inl[OF assms(2) s1] Inr show ?thesis by (simp add: seq_def)
    next
      case (Inr s2)
      with preserves_Inr[OF assms(2) s1] \<open>a s = Inr s1\<close> show ?thesis by (simp add: seq_def)
    qed
  qed
qed

lemma preserves_seqs: "(\<And>a. a \<in> set as \<Longrightarrow> preserves P a) \<Longrightarrow> preserves P (seqs as)"
  by (induction as) (simp_all add: preserves_skip preserves_seq)

lemma preserves_forEachS: "(\<And>x. x \<in> set xs \<Longrightarrow> preserves P (body x)) \<Longrightarrow> preserves P (forEachS xs body)"
  by (induction xs) (simp_all add: preserves_skip preserves_seq)

lemma preserves_letS: "(\<And>v. e = Inr v \<Longrightarrow> preserves P (k v)) \<Longrightarrow> preserves P (letS e k)"
proof (rule preservesI)
  fix s assume k: "\<And>v. e = Inr v \<Longrightarrow> preserves P (k v)" and s: "P s"
  show "case letS e k s of Inl (e, s') \<Rightarrow> P s' | Inr s' \<Rightarrow> P s'"
  proof (cases e)
    case (Inl err)
    with s show ?thesis by (simp add: letS_def)
  next
    case (Inr v)
    from k[OF Inr] s have "case k v s of Inl (e, s') \<Rightarrow> P s' | Inr s' \<Rightarrow> P s'"
      by (simp add: preserves_def)
    with Inr show ?thesis by (simp add: letS_def)
  qed
qed

lemma preserves_ifS: "preserves P a \<Longrightarrow> preserves P (ifS e a)"
proof (rule preservesI)
  fix s assume a: "preserves P a" and s: "P s"
  show "case ifS e a s of Inl (e, s') \<Rightarrow> P s' | Inr s' \<Rightarrow> P s'"
  proof (cases e)
    case (Inl err)
    with s show ?thesis by (simp add: ifS_def)
  next
    case (Inr b)
    from a s have "case a s of Inl (e, s') \<Rightarrow> P s' | Inr s' \<Rightarrow> P s'"
      by (simp add: preserves_def)
    with Inr s show ?thesis by (simp add: ifS_def)
  qed
qed

lemma preserves_tryCatch:
  "preserves P a \<Longrightarrow> (\<And>e s. P s \<Longrightarrow> P (h e s)) \<Longrightarrow> P s \<Longrightarrow> P (tryCatch a h s)"
proof -
  assume a: "preserves P a" and h: "\<And>e s. P s \<Longrightarrow> P (h e s)" and s: "P s"
  show ?thesis
  proof (cases "a s")
    case (Inl x)
    then obtain e s' where "a s = Inl (e, s')" by (cases x) simp
    with preserves_Inl[OF a s] h show ?thesis by (simp add: tryCatch_def)
  next
    case (Inr s1)
    with preserves_Inr[OF a s] show ?thesis by (simp add: tryCatch_def)
  qed
qed

lemma addIssue_Some:
  assumes "map_of (categories r) c = Some cr"
  shows "addIssue r c i = Inr (r\<lparr>summary := countFinding (severity i) (summary r),
            categories := AList.update c
               \<lparr>issues = issues cr @ [i], score = max 0 (score cr - penalty (severity i))\<rparr>
               (categories r)\<rparr>)"
  using assms by (cases cr; cases "severity i") (simp_all add: addIssue_def countFinding_def)

lemma addIssueS_Some:
  assumes "map_of (categories r) c = Some cr"
  shows "addIssueS c i r = Inr (r\<lparr>summary := countFinding (severity i) (summary r),
            categories := AList.update c
               \<lparr>issues = issues cr @ [i], score = max 0 (score cr - penalty (severity i))\<rparr>
               (categories r)\<rparr>)"
  by (simp add: addIssueS_def addIssue_Some[OF assms])

lemma update_keys_present: "map_of al k \<noteq> None \<Longrightarrow> map fst (AList.update k v al) = map fst al"
  by (induction al) (auto split: if_splits)

lemma preserves_addIssueS: "preserves (sameOutside c r0) (addIssueS c i)"
proof (rule preservesI)
  fix r assume r: "sameOutside c r0 r"
  then obtain cr where cr: "map_of (categories r) c = Some cr"
    by (auto simp: sameOutside_def)
  show "case addIssueS c i r of Inl (e, s') \<Rightarrow> sameOutside c r0 s' | Inr s' \<Rightarrow> sameOutside c r0 s'"
    using r cr unfolding addIssueS_Some[OF cr]
    by (simp add: sameOutside_def AList.update_conv' update_keys_present)
qed

lemma sameOutside_initCategory:
  assumes "sameOutside c (initCategory c r) r'"
  shows "map fst (categories r')
           = (if c \<in> set (map fst (categories r)) then map fst (categories r)
              else map fst (categories r) @ [c])"
    and "c' \<noteq> c \<Longrightarrow> map_of (categories r') c' = map_of (categories r) c'"
    and "map_of (categories r') c \<noteq> None"
  using assms
  by (simp_all add: sameOutside_def initCategory_def AList.update_keys AList.update_conv')

lemma sameOutside_start: "sameOutside c (initCategory c r) (initCategory c r)"
  by (simp add: sameOutside_def initCategory_def AList.update_conv')

lemmas preserves_intros =
  preserves_letS preserves_seqs preserves_seq preserves_ifS preserves_addIssueS preserves_skip
  preserves_forEachS

lemma auditPackageStructure_frame:
  "sameOutside STRUCTURE (initCategory STRUCTURE r) (auditPackageStructure rt t b r)"
  unfolding auditPackageStructure_def Let_def
  by (rule preserves_tryCatch)
     (auto intro!: preserves_intros simp: logOnly_def sameOutside_start split: option.split)

lemma auditDependencyManagement_frame:
  "sameOutside DEPENDENCIES (initCategory DEPENDENCIES r) (auditDependencyManagement rt t b r)"
  unfolding auditDependencyManagement_def Let_def
  by (rule preserves_tryCatch)
     (auto intro!: preserves_intros simp: logOnly_def sameOutside_start split: option.split)

lemma auditBuildConfiguration_frame:
  "sameOutside BUILD (initCategory BUILD r) (auditBuildConfiguration rt t b r)"
  unfolding auditBuildConfiguration_def Let_def
  by (rule preserves_tryCatch)
     (auto intro!: preserves_intros simp: logOnly_def sameOutside_start split: option.split)

lemma auditCodeQualitySetup_frame:
  "sameOutside CODE_QUALITY (initCategory CODE_QUALITY r) (auditCodeQualitySetup rt t b r)"
  unfolding auditCodeQualitySetup_def Let_def
  by (rule preserves_tryCatch)
     (auto intro!: preserves_intros simp: logOnly_def sameOutside_start split: option.split)

lemma auditTestingSetup_frame:
  "sameOutside TESTING (initCategory TESTING r) (auditTestingSetup rt t b r)"
  unfolding auditTestingSetup_def Let_def
  by (rule preserves_tryCatch)
     (auto intro!: preserves_intros simp: logOnly_def sameOutside_start split: option.split)

lemma auditDocumentation_frame:
  "sameOutside DOCUMENTATION (initCategory DOCUMENTATION r) (auditDocumentation t r)"
  unfolding auditDocumentation_def Let_def
  by (rule preserves_tryCatch)
     (auto intro!: preserves_intros simp: logOnly_def sameOutside_start split: option.split)

lemma category_names_neq:
  "STRUCTURE \<noteq> DEPENDENCIES" "STRUCTURE \<noteq> BUILD" "STRUCTURE \<noteq> CODE_QUALITY"
  "STRUCTURE \<noteq> TESTING" "STRUCTURE \<noteq> DOCUMENTATION" "DEPENDENCIES \<noteq> STRUCTURE"
  "DEPENDENCIES \<noteq> BUILD" "DEPENDENCIES \<noteq> CODE_QUALITY" "DEPENDENCIES \<noteq> TESTING"
  "DEPENDENCIES \<noteq> DOCUMENTATION" "BUILD \<noteq> STRUCTURE" "BUILD \<noteq> DEPENDENCIES"
  "BUILD \<noteq> CODE_QUALITY" "BUILD \<noteq> TESTING" "BUILD \<noteq> DOCUMENTATION"
  "CODE_QUALITY \<noteq> STRUCTURE" "CODE_QUALITY \<noteq> DEPENDENCIES" "CODE_QUALITY \<noteq> BUILD"
  "CODE_QUALITY \<noteq> TESTING" "CODE_QUALITY \<noteq> DOCUMENTATION" "TESTING \<noteq> STRUCTURE"
  "TESTING \<noteq> DEPENDENCIES" "TESTING \<noteq> BUILD" "TESTING \<noteq> CODE_QUALITY"
  "TESTING \<noteq> DOCUMENTATION" "DOCUMENTATION \<noteq> STRUCTURE" "DOCUMENTATION \<noteq> DEPENDENCIES"
  "DOCUMENTATION \<noteq> BUILD" "DOCUMENTATION \<noteq> CODE_QUALITY" "DOCUMENTATION \<noteq> TESTING"
  by (simp_all add: STRUCTURE_def DEPENDENCIES_def BUILD_def CODE_QUALITY_def TESTING_def
        DOCUMENTATION_def)

lemmas check_keys =
  sameOutside_initCategory(1)[OF auditPackageStructure_frame]
  sameOutside_initCategory(1)[OF auditDependencyManagement_frame]
  sameOutside_initCategory(1)[OF auditBuildConfiguration_frame]
  sameOutside_initCategory(1)[OF auditCodeQualitySetup_frame]
  sameOutside_initCategory(1)[OF auditTestingSetup_frame]
  sameOutside_initCategory(1)[OF auditDocumentation_frame]

lemmas check_other =
  sameOutside_initCategory(2)[OF auditPackageStructure_frame]
  sameOutside_initCategory(2)[OF auditDependencyManagement_frame]
  sameOutside_initCategory(2)[OF auditBuildConfiguration_frame]
  sameOutside_initCategory(2)[OF auditCodeQualitySetup_frame]
  sameOutside_initCategory(2)[OF auditTestingSetup_frame]
  sameOutside_initCategory(2)[OF auditDocumentation_frame]

lemma runAuditChecks_keys:
  "map fst (categories (runAuditChecks rt t b cc (newAuditReport owner repo now)))
     = [STRUCTURE, DEPENDENCIES, BUILD, CODE_QUALITY, TESTING, DOCUMENTATION]"
proof -
  have "categories (newAuditReport owner repo now) = []" by (simp add: newAuditReport_def)
  then show ?thesis
    using category_names_neq
    by (simp add: runAuditChecks_def Let_def check_keys)
qed

lemma initCategory_entry:
  "map_of (categories (initCategory c r)) c = Some \<lparr>issues = [], score = 100\<rparr>"
  by (simp add: initCategory_def AList.update_conv')

lemma structure_without_root:
  assumes "findRootPackage t = None"
  shows "map_of (categories (auditPackageStructure rt t b r)) STRUCTURE
           = Some \<lparr>issues = [missingRootPackage], score = 75\<rparr>"
  using assms
  by (simp add: auditPackageStructure_def Let_def tryCatch_def
        addIssueS_Some[OF initCategory_entry] AList.update_conv' missingRootPackage_def)

lemma dependencies_without_root:
  assumes "findRootPackage t = None"
  shows "map_of (categories (auditDependencyManagement rt t b r)) DEPENDENCIES
           = Some \<lparr>issues = [], score = 100\<rparr>"
  using assms
  by (simp add: auditDependencyManagement_def Let_def tryCatch_def skip_def initCategory_entry)

lemma documentation_entry:
  "map_of (categories (auditDocumentation t r)) DOCUMENTATION
     = Some \<lparr>issues = [documentationPlaceholder], score = 95\<rparr>"
  by (simp add: auditDocumentation_def Let_def tryCatch_def
        addIssueS_Some[OF initCategory_entry] AList.update_conv' documentationPlaceholder_def)

lemma runAuditChecks_structure:
  "map_of (categories (runAuditChecks rt t b cc r)) STRUCTURE
     = map_of (categories (auditPackageStructure rt t b r)) STRUCTURE"
  using category_names_neq
  by (simp add: runAuditChecks_def Let_def check_other)

lemma runAuditChecks_dependencies:
  "map_of (categories (runAuditChecks rt t b cc r)) DEPENDENCIES
     = map_of (categories (auditDependencyManagement rt t b
                             (auditPackageStructure rt t b r))) DEPENDENCIES"
  using category_names_neq
  by (simp add: runAuditChecks_def Let_def check_other)

lemma runAuditChecks_documentation:
  "map_of (categories (runAuditChecks rt t b cc r)) DOCUMENTATION
     = Some \<lparr>issues = [documentationPlaceholder], score = 95\<rparr>"
  by (simp add: runAuditChecks_def Let_def documentation_entry)

lemma runAuditChecks_score:
  "\<exists>r6. runAuditChecks rt t b cc r0 = calculateComplianceScore r6 \<and> categories r6 \<noteq> []"
proof -
  let ?r5 = "auditTestingSetup rt t b (auditCodeQualitySetup rt t cc
               (auditBuildConfiguration rt t b (auditDependencyManagement rt t b
                 (auditPackageStructure rt t b r0))))"
  have "map_of (categories (auditDocumentation t ?r5)) DOCUMENTATION \<noteq> None"
    by (simp add: documentation_entry)
  then have "categories (auditDocumentation t ?r5) \<noteq> []" by auto
  then show ?thesis by (auto simp: runAuditChecks_def Let_def)
qed

subsection \<open>Claims about the audit engine\<close>

text \<open>
  C1. A category starts at 100 with no findings. After any sequence of findings recorded
  with \<^verbatim>\<open>addIssue\<close> into categories that exist, the sequence is recorded without an
  exception, and the category holds the findings that went to it, in order; its score is
  100 minus the sum of their penalties (critical 25, high 15, medium 10, low 5), floored
  at 0; the score lies between 0 and 100, and recording one more finding, in any
  category, never raises it.
\<close>

theorem category_score_formula:
  assumes "map_of (categories r) c = Some \<lparr>issues = [], score = 100\<rparr>"
      and "\<forall>op \<in> set ops. map_of (categories r) (fst op) \<noteq> None"
  shows "\<exists>r' cr. addIssues r ops = Inr r' \<and> map_of (categories r') c = Some cr
           \<and> issues cr = recorded c ops
           \<and> score cr = max 0 (100 - penalties (recorded c ops))
           \<and> 0 \<le> score cr \<and> score cr \<le> 100
           \<and> (\<forall>c2 i r2. addIssue r' c2 i = Inr r2 \<longrightarrow>
                 (\<exists>cr2. map_of (categories r2) c = Some cr2 \<and> score cr2 \<le> score cr))"
proof -
  from addIssues_category[OF assms] obtain r' cr where
    run: "addIssues r ops = Inr r'" and m: "map_of (categories r') c = Some cr"
    and iss: "issues cr = recorded c ops"
    and sc0: "score cr = (if recorded c ops = [] then 100 else max 0 (100 - penalties (recorded c ops)))"
    by auto
  have sc: "score cr = max 0 (100 - penalties (recorded c ops))"
    using sc0 by (simp add: penalties_def)
  have bounds: "0 \<le> score cr" "score cr \<le> 100"
    using sc penalties_nonneg[of "recorded c ops"] by simp_all
  have mono: "\<exists>cr2. map_of (categories r2) c = Some cr2 \<and> score cr2 \<le> score cr"
    if add: "addIssue r' c2 i = Inr r2" for c2 i r2
  proof -
    from add obtain cr0 where cr0: "map_of (categories r') c2 = Some cr0"
      and cats: "categories r2 = AList.update c2
           \<lparr>issues = issues cr0 @ [i], score = max 0 (score cr0 - penalty (severity i))\<rparr>
           (categories r')"
      by (rule addIssue_cases)
    show ?thesis
    proof (cases "c2 = c")
      case True
      with cr0 m have "cr0 = cr" by simp
      then show ?thesis
        using True bounds penalty_nonneg[of "severity i"]
        by (simp add: cats AList.update_conv')
    next
      case False
      then show ?thesis using m by (simp add: cats AList.update_conv')
    qed
  qed
  from run m iss sc bounds mono show ?thesis by blast
qed

theorem category_score_formula_witness:
  "map_of (categories (initCategory STRUCTURE (newAuditReport ''o'' ''r'' ''t''))) STRUCTURE
     = Some \<lparr>issues = [], score = 100\<rparr>
   \<and> (\<exists>r' cr. addIssues (initCategory STRUCTURE (newAuditReport ''o'' ''r'' ''t''))
                  [(STRUCTURE, missingRootPackage), (STRUCTURE, missingWorkspaces),
                   (STRUCTURE, missingEngines)] = Inr r'
          \<and> map_of (categories r') STRUCTURE = Some cr
          \<and> issues cr = [missingRootPackage, missingWorkspaces, missingEngines]
          \<and> score cr = 50)"
proof -
  let ?r = "initCategory STRUCTURE (newAuditReport ''o'' ''r'' ''t'')"
  let ?ops = "[(STRUCTURE, missingRootPackage), (STRUCTURE, missingWorkspaces),
               (STRUCTURE, missingEngines)]"
  have h1: "map_of (categories ?r) STRUCTURE = Some \<lparr>issues = [], score = 100\<rparr>"
    by (simp add: initCategory_def newAuditReport_def)
  have h2: "\<forall>op \<in> set ?ops. map_of (categories ?r) (fst op) \<noteq> None"
    by (simp add: initCategory_def newAuditReport_def)
  have rec: "recorded STRUCTURE ?ops = [missingRootPackage, missingWorkspaces, missingEngines]"
    by (simp add: recorded_def)
  have pen: "penalties [missingRootPackage, missingWorkspaces, missingEngines] = 50"
    by (simp add: penalties_def missingRootPackage_def missingWorkspaces_def missingEngines_def)
  from category_score_formula[OF h1 h2] h1 show ?thesis
    unfolding rec pen by auto
qed

text \<open>
  C2. \<^verbatim>\<open>calculateComplianceScore\<close> stores the integer nearest to the unweighted mean of the
  scores of all categories of the report (a tie goes up); the scores
  100, 75, 90, 60, 85, 95 give 84. The report \<^verbatim>\<open>auditRepository\<close> builds after the six
  checks carries the rounded mean of its own category scores.
\<close>

theorem compliance_score_rounded_mean:
  assumes "categories r \<noteq> []"
  shows "(\<exists>k::int. complianceScore (summary (calculateComplianceScore r)) = Num (of_int k)
            \<and> mean (categoryScores r) - 1 / 2 < of_int k
            \<and> of_int k \<le> mean (categoryScores r) + 1 / 2
            \<and> (categoryScores r = [100, 75, 90, 60, 85, 95] \<longrightarrow> k = 84))
         \<and> (\<exists>k::int. complianceScore (summary (runAuditChecks rt t b cc r0)) = Num (of_int k)
            \<and> mean (categoryScores (runAuditChecks rt t b cc r0)) - 1 / 2 < of_int k
            \<and> of_int k \<le> mean (categoryScores (runAuditChecks rt t b cc r0)) + 1 / 2)"
proof
  from assms have ne: "categoryScores r \<noteq> []" by (simp add: categoryScores_def)
  from Math_round_nearest[OF ne] obtain k :: int where
    k: "Math_round (js_div (sum_list (categoryScores r)) (length (categoryScores r))) = Num (of_int k)"
       "mean (categoryScores r) - 1 / 2 < of_int k" "of_int k \<le> mean (categoryScores r) + 1 / 2"
    by blast
  have "categoryScores r = [100, 75, 90, 60, 85, 95] \<longrightarrow> k = 84"
    using example_k[of k] k(2,3) by auto
  with k show "\<exists>k::int. complianceScore (summary (calculateComplianceScore r)) = Num (of_int k)
            \<and> mean (categoryScores r) - 1 / 2 < of_int k
            \<and> of_int k \<le> mean (categoryScores r) + 1 / 2
            \<and> (categoryScores r = [100, 75, 90, 60, 85, 95] \<longrightarrow> k = 84)"
    unfolding calculateComplianceScore_value by blast
next
  from runAuditChecks_score[of rt t b cc r0] obtain r6 where
    r6: "runAuditChecks rt t b cc r0 = calculateComplianceScore r6" "categories r6 \<noteq> []" by blast
  then have ne: "categoryScores r6 \<noteq> []" by (simp add: categoryScores_def)
  have same: "categoryScores (calculateComplianceScore r6) = categoryScores r6"
    by (simp add: categoryScores_def)
  from Math_round_nearest[OF ne] show "\<exists>k::int.
       complianceScore (summary (runAuditChecks rt t b cc r0)) = Num (of_int k)
       \<and> mean (categoryScores (runAuditChecks rt t b cc r0)) - 1 / 2 < of_int k
       \<and> of_int k \<le> mean (categoryScores (runAuditChecks rt t b cc r0)) + 1 / 2"
    unfolding r6(1) same calculateComplianceScore_value by blast
qed

theorem compliance_score_rounded_mean_witness:
  "categories exampleScores \<noteq> []
   \<and> complianceScore (summary (calculateComplianceScore exampleScores)) = Num 84"
proof -
  have ne: "categories exampleScores \<noteq> []" by (simp add: exampleScores_def)
  have sc: "categoryScores exampleScores = [100, 75, 90, 60, 85, 95]"
    by (simp add: exampleScores_def categoryScores_def)
  from compliance_score_rounded_mean[OF ne] sc ne show ?thesis by auto
qed

text \<open>
  C3. When no record of \<^verbatim>\<open>packageFiles\<close> has the path \<^verbatim>\<open>package.json\<close>, the Structure
  category of the finished report holds exactly one finding, the critical one for the
  missing root manifest, and nothing else; the report still has all six categories, in
  the order of the checks, the Dependencies category empty and the Documentation
  category with its placeholder.
\<close>

theorem missing_root_manifest_short_circuit:
  assumes "\<forall>f \<in> set (packageFiles targetData). path f \<noteq> ''package.json''"
  shows "map_of (categories (runAuditChecks rt targetData boilerplateData commonConfigData
                               (newAuditReport owner repo now))) STRUCTURE
           = Some \<lparr>issues = [missingRootPackage], score = 75\<rparr>
         \<and> severity missingRootPackage = Critical
         \<and> map fst (categories (runAuditChecks rt targetData boilerplateData commonConfigData
                                   (newAuditReport owner repo now)))
             = [STRUCTURE, DEPENDENCIES, BUILD, CODE_QUALITY, TESTING, DOCUMENTATION]
         \<and> map_of (categories (runAuditChecks rt targetData boilerplateData commonConfigData
                                  (newAuditReport owner repo now))) DEPENDENCIES
             = Some \<lparr>issues = [], score = 100\<rparr>
         \<and> map_of (categories (runAuditChecks rt targetData boilerplateData commonConfigData
                                  (newAuditReport owner repo now))) DOCUMENTATION
             = Some \<lparr>issues = [documentationPlaceholder], score = 95\<rparr>"
proof -
  from assms have none: "findRootPackage targetData = None"
    by (simp add: findRootPackage_def find_None_iff)
  show ?thesis
    by (simp add: runAuditChecks_structure structure_without_root[OF none]
          runAuditChecks_dependencies dependencies_without_root[OF none]
          runAuditChecks_documentation runAuditChecks_keys missingRootPackage_def)
qed

theorem missing_root_manifest_short_circuit_witness:
  "map path (packageFiles targetWithoutRoot) = [''apps/web/package.json'']
   \<and> map_of (categories (runAuditChecks exampleRuntime targetWithoutRoot [] []
                            (newAuditReport ''DTSL'' ''dnd-editor'' (now_iso exampleRuntime))))
         STRUCTURE
       = Some \<lparr>issues = [missingRootPackage], score = 75\<rparr>"
proof -
  have h: "\<forall>f \<in> set (packageFiles targetWithoutRoot). path f \<noteq> ''package.json''"
    by (simp add: targetWithoutRoot_def)
  have ne: "map path (packageFiles targetWithoutRoot) = [''apps/web/package.json'']"
    by (simp add: targetWithoutRoot_def)
  from missing_root_manifest_short_circuit[OF h] ne show ?thesis by blast
qed

text \<open>
  C9. Whatever the fetched data and the report the checks start from, the Documentation
  category of the finished report holds exactly one finding, the placeholder of severity
  low, and has the score 95.
\<close>

theorem documentation_placeholder:
  "map_of (categories (runAuditChecks rt targetData boilerplateData commonConfigData auditReport))
       DOCUMENTATION
     = Some \<lparr>issues = [documentationPlaceholder], score = 95\<rparr>
   \<and> severity documentationPlaceholder = Low
   \<and> map_of (categories (auditDocumentation targetData auditReport)) DOCUMENTATION
     = Some \<lparr>issues = [documentationPlaceholder], score = 95\<rparr>"
  by (simp add: runAuditChecks_documentation documentation_entry documentationPlaceholder_def)

text \<open>
  C10. Start from a report whose counters are 0 and whose categories are all freshly
  initialised. After any sequence of findings recorded into categories that exist,
  \<^verbatim>\<open>totalIssues\<close> is the sum of the lengths of the findings lists of all categories; when
  no finding of the sequence has severity info it is also the sum of the four severity
  counters; and one more finding of severity info raises \<^verbatim>\<open>totalIssues\<close> by one, leaves
  the four severity counters alone and leaves every category score as it was.
\<close>

theorem finding_counters_consistent:
  assumes "totalIssues (summary r) = 0"
      and "criticalIssues (summary r) = 0" and "highIssues (summary r) = 0"
      and "mediumIssues (summary r) = 0" and "lowIssues (summary r) = 0"
      and "\<forall>p \<in> set (categories r). snd p = \<lparr>issues = [], score = 100\<rparr>"
      and "\<forall>op \<in> set ops. map_of (categories r) (fst op) \<noteq> None"
  shows "\<exists>r'. addIssues r ops = Inr r'
           \<and> totalIssues (summary r') = (\<Sum>cr\<leftarrow>map snd (categories r'). length (issues cr))
           \<and> ((\<forall>op \<in> set ops. severity (snd op) \<noteq> Info) \<longrightarrow>
                 totalIssues (summary r')
                   = criticalIssues (summary r') + highIssues (summary r')
                     + mediumIssues (summary r') + lowIssues (summary r'))
           \<and> (\<forall>c i r2. severity i = Info \<longrightarrow> addIssue r' c i = Inr r2 \<longrightarrow>
                 totalIssues (summary r2) = totalIssues (summary r') + 1
                 \<and> criticalIssues (summary r2) = criticalIssues (summary r')
                 \<and> highIssues (summary r2) = highIssues (summary r')
                 \<and> mediumIssues (summary r2) = mediumIssues (summary r')
                 \<and> lowIssues (summary r2) = lowIssues (summary r')
                 \<and> map (\<lambda>p. (fst p, score (snd p))) (categories r2)
                     = map (\<lambda>p. (fst p, score (snd p))) (categories r'))"
proof -
  from addIssues_total[OF assms(7)] obtain r' where run: "addIssues r ops = Inr r'" by blast
  have len0: "(\<Sum>cr\<leftarrow>map snd (categories r). length (issues cr)) = 0"
    using assms(6) by (induction "categories r") auto
  have total: "totalIssues (summary r') = (\<Sum>cr\<leftarrow>map snd (categories r'). length (issues cr))"
    using addIssues_invariants(1,2)[OF run] assms(1) len0 by simp
  have sev: "totalIssues (summary r')
               = criticalIssues (summary r') + highIssues (summary r')
                 + mediumIssues (summary r') + lowIssues (summary r')"
    if "\<forall>op \<in> set ops. severity (snd op) \<noteq> Info"
  proof -
    from that have "filter (\<lambda>op. severity (snd op) \<noteq> Info) ops = ops" by (simp add: filter_id_conv)
    then show ?thesis
      using addIssues_invariants(1,3)[OF run] assms(1-5) by simp
  qed
  have nonneg0: "\<forall>p \<in> set (categories r). 0 \<le> score (snd p)"
    using assms(6) by simp
  have nonneg: "\<forall>p \<in> set (categories r'). 0 \<le> score (snd p)"
    using addIssues_invariants(4)[OF run nonneg0] .
  have info: "totalIssues (summary r2) = totalIssues (summary r') + 1
                 \<and> criticalIssues (summary r2) = criticalIssues (summary r')
                 \<and> highIssues (summary r2) = highIssues (summary r')
                 \<and> mediumIssues (summary r2) = mediumIssues (summary r')
                 \<and> lowIssues (summary r2) = lowIssues (summary r')
                 \<and> map (\<lambda>p. (fst p, score (snd p))) (categories r2)
                     = map (\<lambda>p. (fst p, score (snd p))) (categories r')"
    if sevi: "severity i = Info" and add: "addIssue r' c i = Inr r2" for c i r2
  proof -
    from add obtain cr where cr: "map_of (categories r') c = Some cr"
      and cats: "categories r2 = AList.update c
           \<lparr>issues = issues cr @ [i], score = max 0 (score cr - penalty (severity i))\<rparr>
           (categories r')"
      by (rule addIssue_cases)
    from cr nonneg have "0 \<le> score cr" using map_of_SomeD by fastforce
    then have "score \<lparr>issues = issues cr @ [i], score = max 0 (score cr - penalty (severity i))\<rparr>
                 = score cr" using sevi by simp
    from scores_update_same[OF cr this] have "map (\<lambda>p. (fst p, score (snd p))) (categories r2)
                     = map (\<lambda>p. (fst p, score (snd p))) (categories r')"
      by (simp add: cats)
    then show ?thesis
      using addIssue_summary(1)[OF add] addIssue_info_summary[OF add sevi] by simp
  qed
  from run total sev info show ?thesis by blast
qed

theorem finding_counters_consistent_witness:
  "\<exists>r'. addIssues (initCategory BUILD (initCategory STRUCTURE (newAuditReport ''o'' ''r'' ''t'')))
            [(STRUCTURE, missingRootPackage), (BUILD, missingTurbo), (BUILD, missingBabel)] = Inr r'
      \<and> totalIssues (summary r') = (\<Sum>cr\<leftarrow>map snd (categories r'). length (issues cr))
      \<and> totalIssues (summary r')
           = criticalIssues (summary r') + highIssues (summary r')
             + mediumIssues (summary r') + lowIssues (summary r')"
proof -
  let ?r = "initCategory BUILD (initCategory STRUCTURE (newAuditReport ''o'' ''r'' ''t''))"
  let ?ops = "[(STRUCTURE, missingRootPackage), (BUILD, missingTurbo), (BUILD, missingBabel)]"
  have ne: "STRUCTURE \<noteq> BUILD" by (simp add: STRUCTURE_def BUILD_def)
  have cats: "categories ?r = [(STRUCTURE, \<lparr>issues = [], score = 100\<rparr>),
                               (BUILD, \<lparr>issues = [], score = 100\<rparr>)]"
    using ne by (simp add: initCategory_def newAuditReport_def)
  have h0: "totalIssues (summary ?r) = 0" "criticalIssues (summary ?r) = 0"
    "highIssues (summary ?r) = 0" "mediumIssues (summary ?r) = 0" "lowIssues (summary ?r) = 0"
    by (simp_all add: initCategory_def newAuditReport_def)
  have h6: "\<forall>p \<in> set (categories ?r). snd p = \<lparr>issues = [], score = 100\<rparr>"
    unfolding cats by simp
  have h7: "\<forall>op \<in> set ?ops. map_of (categories ?r) (fst op) \<noteq> None"
    unfolding cats by simp
  have sev: "\<forall>op \<in> set ?ops. severity (snd op) \<noteq> Info"
    by (simp add: missingRootPackage_def missingTurbo_def missingBabel_def)
  from finding_counters_consistent[OF h0 h6 h7] sev show ?thesis by blast
qed

section \<open>Properties of the GitHub client and of the dependency check\<close>

subsection \<open>Auxiliary facts\<close>

lemma getFileContent_Some:
  assumes "getFileContent rt c owner repo p = Some f"
  shows "\<exists>data b. octokit c owner repo p (target_branch (config c)) = Inr (DataObject data)
           \<and> item_content data = Some b
           \<and> item_size data \<le> maxFileSize (config c)
           \<and> f = \<lparr> path = item_path data, content = base64_utf8 rt b,
                    fsize = item_size data, sha = item_sha data \<rparr>"
  using assms
  by (auto simp: getFileContent_def getFileContent_try_def
           split: sum.splits gh_data.splits if_splits option.splits)

lemma getFileContent_size:
  "getFileContent rt c owner repo p = Some f \<Longrightarrow> fsize f \<le> maxFileSize (config c)"
  by (drule getFileContent_Some) auto

lemma getFileContent_oversize:
  assumes "octokit c owner repo p (target_branch (config c)) = Inr (DataObject data)"
      and "item_size data > maxFileSize (config c)"
  shows "getFileContent rt c owner repo p = None"
  using assms by (simp add: getFileContent_def getFileContent_try_def)

lemma getFileContent_failed:
  assumes "octokit c owner repo p (target_branch (config c)) = Inl e"
  shows "getFileContent rt c owner repo p = None"
  using assms by (simp add: getFileContent_def getFileContent_try_def)

lemma getRepositoryStructure_failed:
  assumes "octokit c owner repo p (target_branch (config c)) = Inl e"
  shows "getRepositoryStructure c owner repo p = []"
  using assms by (simp add: getRepositoryStructure_def getRepositoryStructure_try_def)

lemma preserves_pushFile: "preserves (withinLimit c) (pushFile rt c owner repo p)"
  by (rule preservesI)
     (auto simp: pushFile_def withinLimit_def dest: getFileContent_size split: option.splits)

lemma withinLimit_Nil: "withinLimit c []"
  by (simp add: withinLimit_def)

lemmas collector_intros =
  preserves_seq preserves_forEachS preserves_ifS preserves_pushFile preserves_skip

lemma getPackageJsonFiles_withinLimit: "withinLimit c (getPackageJsonFiles rt c owner repo)"
  unfolding getPackageJsonFiles_def Let_def
  by (rule preserves_tryCatch)
     (auto intro!: collector_intros simp: logOnly_def withinLimit_Nil)

lemma getConfigFiles_withinLimit: "withinLimit c (getConfigFiles rt c owner repo)"
  unfolding getConfigFiles_def Let_def
  by (rule preserves_tryCatch)
     (auto intro!: collector_intros simp: logOnly_def withinLimit_Nil)

lemma getRepositoryDataChunked_returns:
  "getRepositoryDataChunked rt c owner repo
     = Inr \<lparr> packageFiles = getPackageJsonFiles rt c owner repo,
             configFiles = getConfigFiles rt c owner repo,
             metadata = \<lparr> meta_owner = owner, meta_repo = repo, fetchedAt = now_iso rt,
                          totalFiles = length (getPackageJsonFiles rt c owner repo)
                                       + length (getConfigFiles rt c owner repo) \<rparr> \<rparr>"
  by (simp add: getRepositoryDataChunked_def getRepositoryDataChunked_try_def Let_def)

lemmas run_simps =
  Let_def tryCatch_def seq_def ifS_def letS_def skip_def logOnly_def andE_def orE_def
  pushFile_def getFileContent_def getFileContent_try_def
  getRepositoryStructure_def getRepositoryStructure_try_def

lemmas example_simps =
  exampleClient_def exampleService_def exampleRuntime_def MCP_CONFIG_def listed_def
  bigManifest_def turboFile_def indexFile_def setupTarget_def failingClient_def

lemma matches_turbo: "matchesPattern ''turbo.json'' configPatterns = Inr True"
  by code_simp

lemma matches_manifest: "matchesPattern ''package.json'' configPatterns = Inr False"
  by code_simp

lemma failingClient_dataset:
  "getRepositoryDataChunked exampleRuntime failingClient ''DTSL'' ''dnd-editor''
     = Inr \<lparr> packageFiles = [], configFiles = [],
             metadata = \<lparr> meta_owner = ''DTSL'', meta_repo = ''dnd-editor'',
                          fetchedAt = ''2024-01-01T00:00:00.000Z'', totalFiles = 0 \<rparr> \<rparr>"
  by (simp add: getRepositoryDataChunked_returns getPackageJsonFiles_def getConfigFiles_def
        run_simps example_simps)

lemma exampleClient_dataset:
  "getRepositoryDataChunked exampleRuntime exampleClient ''DTSL'' ''dnd-editor''
     = Inr \<lparr> packageFiles = [],
             configFiles = [\<lparr> path = ''turbo.json'', content = ''{}'', fsize = 2, sha = ''c1'' \<rparr>],
             metadata = \<lparr> meta_owner = ''DTSL'', meta_repo = ''dnd-editor'',
                          fetchedAt = ''2024-01-01T00:00:00.000Z'', totalFiles = 1 \<rparr> \<rparr>"
  by (simp add: getRepositoryDataChunked_returns getPackageJsonFiles_def getConfigFiles_def
        run_simps example_simps matches_turbo matches_manifest)

lemma addIssueS_unfold:
  "addIssueS c i r =
     (case map_of (categories r) c of
        None \<Rightarrow> Inl (TypeError, r)
      | Some cr \<Rightarrow> Inr (r\<lparr>summary := countFinding (severity i) (summary r),
            categories := AList.update c
               \<lparr>issues = issues cr @ [i], score = max 0 (score cr - penalty (severity i))\<rparr>
               (categories r)\<rparr>))"
  by (cases "map_of (categories r) c") (simp_all add: addIssueS_def addIssue_Inl addIssue_Some)

lemma dependencies_entry:
  assumes root: "findRootPackage targetData = Some rootPackage"
      and parse: "JSON_parse rt (content rootPackage) = Inr (JObj kvs)"
      and dev: "map_of kvs ''devDependencies'' = Some (JObj dev)"
      and jest: "truthy (map_of dev ''@dtsl/jest-config'')"
      and nodev: "map_of dev ''@dtsl/eslint-config'' = None"
                 "map_of dev ''@dtsl/prettier-config'' = None"
                 "map_of dev ''@dtsl/typescript-config'' = None"
      and nodeps: "optProp (map_of kvs ''dependencies'') ''@dtsl/eslint-config'' = None"
                  "optProp (map_of kvs ''dependencies'') ''@dtsl/prettier-config'' = None"
                  "optProp (map_of kvs ''dependencies'') ''@dtsl/typescript-config'' = None"
  shows "map_of (categories (auditDependencyManagement rt targetData boilerplateData r))
           DEPENDENCIES
         = Some (if truthy (optProp (map_of kvs ''dependencies'') ''lodash'')
                    \<or> truthy (map_of dev ''lodash'')
                 then \<lparr>issues = [missingDependency ''@dtsl/eslint-config'',
                                 missingDependency ''@dtsl/prettier-config'',
                                 missingDependency ''@dtsl/typescript-config'',
                                 lodashIssue],
                        score = 65\<rparr>
                 else \<lparr>issues = [missingDependency ''@dtsl/eslint-config'',
                                 missingDependency ''@dtsl/prettier-config'',
                                 missingDependency ''@dtsl/typescript-config''],
                        score = 70\<rparr>)"
proof -
  have missing: "filterE (isMissingDep (JObj kvs)) requiredDeps
                   = Inr [''@dtsl/eslint-config'', ''@dtsl/prettier-config'',
                          ''@dtsl/typescript-config'']"
    using dev jest nodev nodeps
    by (simp add: requiredDeps_def isMissingDep_def andE_def falsyE_def optChain_def)
  have lodash: "orE (truthyE (optChain (getProp (JObj kvs) ''dependencies'') ''lodash''))
                    (truthyE (optChain (getProp (JObj kvs) ''devDependencies'') ''lodash''))
                  = Inr (truthy (optProp (map_of kvs ''dependencies'') ''lodash'')
                         \<or> truthy (map_of dev ''lodash''))"
    using dev by (simp add: orE_def truthyE_def optChain_def)
  show ?thesis
    unfolding auditDependencyManagement_def Let_def root option.case parse letS_def sum.case
      missing lodash
    by (simp add: tryCatch_def seq_def skip_def ifS_def logOnly_def addIssueS_unfold
          initCategory_def AList.update_conv' missingDependency_def lodashIssue_def)
qed


lemma text_neq: "emptyVersionText \<noteq> manifestText"
  by (simp add: emptyVersionText_def manifestText_def)

lemma emptyVersion_entry:
  "map_of (categories (auditDependencyManagement exampleRuntime targetEmptyVersion [] r))
       DEPENDENCIES
     = Some \<lparr>issues = [missingDependency ''@dtsl/jest-config'',
                       missingDependency ''@dtsl/eslint-config'',
                       missingDependency ''@dtsl/prettier-config'',
                       missingDependency ''@dtsl/typescript-config''],
              score = 60\<rparr>"
proof -
  let ?f = "\<lparr> path = ''package.json'', content = emptyVersionText, fsize = 44, sha = ''f2'' \<rparr>"
  have root: "findRootPackage targetEmptyVersion = Some ?f"
    by (simp add: findRootPackage_def targetEmptyVersion_def)
  have parse: "JSON_parse exampleRuntime (content ?f) = Inr emptyVersionJson"
    by (simp add: exampleRuntime_def text_neq)
  have missing: "filterE (isMissingDep emptyVersionJson) requiredDeps = Inr requiredDeps"
    by (simp add: requiredDeps_def isMissingDep_def andE_def falsyE_def optChain_def
          emptyVersionJson_def)
  have lodash: "orE (truthyE (optChain (getProp emptyVersionJson ''dependencies'') ''lodash''))
                    (truthyE (optChain (getProp emptyVersionJson ''devDependencies'') ''lodash''))
                  = Inr False"
    by (simp add: orE_def truthyE_def optChain_def emptyVersionJson_def)
  show ?thesis
    unfolding auditDependencyManagement_def Let_def root option.case parse letS_def sum.case
      missing lodash
    by (simp add: requiredDeps_def tryCatch_def seq_def skip_def ifS_def logOnly_def
          addIssueS_unfold initCategory_def AList.update_conv' missingDependency_def)
qed

lemma auditRepository_returns:
  "auditRepository rt c owner repo
     = Inr (runAuditChecks rt
              \<lparr> packageFiles = getPackageJsonFiles rt c owner repo,
                configFiles = getConfigFiles rt c owner repo,
                metadata = \<lparr> meta_owner = owner, meta_repo = repo, fetchedAt = now_iso rt,
                             totalFiles = length (getPackageJsonFiles rt c owner repo)
                                          + length (getConfigFiles rt c owner repo) \<rparr> \<rparr>
              (getBoilerplateTemplate rt c) (getCommonConfig rt c)
              (newAuditReport owner repo (now_iso rt)))"
  by (simp add: auditRepository_def getRepositoryDataChunked_returns)

lemma forEachS_append:
  assumes "\<And>x acc. body x acc = Inr (acc @ g x)"
  shows "forEachS xs body acc = Inr (acc @ concat (map g xs))"
  by (induction xs arbitrary: acc) (simp_all add: skip_def seq_def assms)

lemma ifS_pushFile:
  "ifS (Inr b) (pushFile rt c owner repo p) acc
     = Inr (acc @ (if b then (case getFileContent rt c owner repo p of
                                None \<Rightarrow> [] | Some f \<Rightarrow> [f])
                   else []))"
  by (simp add: ifS_def pushFile_def split: option.split)

lemma getCommonConfig_fetches:
  "getCommonConfig rt c
     = concat (map
         (\<lambda>item. if (item_type item = ''file'' \<and> endsWith (item_name item) ''.json'')
                       \<or> endsWith (item_name item) ''.js''
                  then (case getFileContent rt c (commonConfig_owner (config c))
                               (commonConfig_repo (config c)) (item_path item) of
                          None \<Rightarrow> [] | Some f \<Rightarrow> [f])
                  else [])
         (getRepositoryStructure c (commonConfig_owner (config c))
            (commonConfig_repo (config c)) []))"
  unfolding getCommonConfig_def Let_def tryCatch_def
  by (subst forEachS_append[where g = "\<lambda>item. if (item_type item = ''file'' \<and> endsWith (item_name item) ''.json'')
                       \<or> endsWith (item_name item) ''.js''
                  then (case getFileContent rt c (commonConfig_owner (config c))
                               (commonConfig_repo (config c)) (item_path item) of
                          None \<Rightarrow> [] | Some f \<Rightarrow> [f])
                  else []"])
     (simp_all add: ifS_pushFile)

subsection \<open>Claims about the collectors, the pattern matching and the dependency check\<close>

text \<open>
  C4, as stated, fails: with a service whose every request raises a \<^verbatim>\<open>TransientError\<close>,
  the listing of \<^verbatim>\<open>apps\<close> and the read of \<^verbatim>\<open>package.json\<close> fail with an error that is not
  a \<^verbatim>\<open>NotFoundError\<close>, and the collection still returns a dataset, an empty one.
\<close>

theorem transient_failure_counterexample:
  "octokit failingClient ''DTSL'' ''dnd-editor'' ''apps'' (target_branch (config failingClient))
     = Inl TransientError
   \<and> octokit failingClient ''DTSL'' ''dnd-editor'' ''package.json''
       (target_branch (config failingClient)) = Inl TransientError
   \<and> TransientError \<noteq> NotFoundError
   \<and> getRepositoryDataChunked exampleRuntime failingClient ''DTSL'' ''dnd-editor''
       \<noteq> Inl TransientError
   \<and> getRepositoryDataChunked exampleRuntime failingClient ''DTSL'' ''dnd-editor''
       = Inr \<lparr> packageFiles = [], configFiles = [],
               metadata = \<lparr> meta_owner = ''DTSL'', meta_repo = ''dnd-editor'',
                            fetchedAt = ''2024-01-01T00:00:00.000Z'', totalFiles = 0 \<rparr> \<rparr>"
  by (simp add: failingClient_dataset) (simp add: failingClient_def)

text \<open>
  C4, amended. No failure of a request aborts the collection: for every service,
  \<^verbatim>\<open>getRepositoryDataChunked\<close> returns a dataset; and a request that raises any error,
  \<^verbatim>\<open>NotFoundError\<close> or not, makes the listing of that path empty and the read of that
  path \<^verbatim>\<open>null\<close>.
\<close>

theorem collection_never_aborts:
  "(\<exists>ds. getRepositoryDataChunked rt c owner repo = Inr ds)
   \<and> (\<forall>e. octokit c owner repo p (target_branch (config c)) = Inl e \<longrightarrow>
          getRepositoryStructure c owner repo p = []
          \<and> getFileContent rt c owner repo p = None)"
  by (simp add: getRepositoryDataChunked_returns getRepositoryStructure_failed
        getFileContent_failed)

theorem collection_never_aborts_witness:
  "octokit failingClient ''DTSL'' ''dnd-editor'' ''apps'' (target_branch (config failingClient))
     = Inl TransientError
   \<and> getRepositoryStructure failingClient ''DTSL'' ''dnd-editor'' ''apps'' = []
   \<and> getFileContent exampleRuntime failingClient ''DTSL'' ''dnd-editor'' ''apps'' = None
   \<and> (\<exists>ds. getRepositoryDataChunked exampleRuntime failingClient ''DTSL'' ''dnd-editor''
              = Inr ds)"
proof -
  have h: "octokit failingClient ''DTSL'' ''dnd-editor'' ''apps''
             (target_branch (config failingClient)) = Inl TransientError"
    by (simp add: failingClient_def)
  from collection_never_aborts[of exampleRuntime failingClient "''DTSL''" "''dnd-editor''"
         "''apps''"] h
  show ?thesis by blast
qed

text \<open>
  C5. A file whose reported size is strictly greater than the configured maximum is
  answered with \<^verbatim>\<open>null\<close>; a record that \<^verbatim>\<open>getFileContent\<close> returns is within the maximum
  and carries the whole decoded content the service sent; and \<^verbatim>\<open>getRepositoryDataChunked\<close>
  returns a dataset in which no record, of \<^verbatim>\<open>packageFiles\<close> or of \<^verbatim>\<open>configFiles\<close>, exceeds
  the maximum.
\<close>

theorem oversized_files_dropped:
  "(\<forall>data. octokit c owner repo p (target_branch (config c)) = Inr (DataObject data)
        \<longrightarrow> item_size data > maxFileSize (config c)
        \<longrightarrow> getFileContent rt c owner repo p = None)
   \<and> (\<forall>f. getFileContent rt c owner repo p = Some f \<longrightarrow>
          fsize f \<le> maxFileSize (config c)
          \<and> (\<exists>data b. octokit c owner repo p (target_branch (config c)) = Inr (DataObject data)
                \<and> item_content data = Some b
                \<and> f = \<lparr> path = item_path data, content = base64_utf8 rt b,
                         fsize = item_size data, sha = item_sha data \<rparr>))
   \<and> (\<exists>ds. getRepositoryDataChunked rt c owner repo = Inr ds
          \<and> (\<forall>f \<in> set (packageFiles ds) \<union> set (configFiles ds).
                fsize f \<le> maxFileSize (config c)))"
proof (intro conjI allI impI)
  fix data
  assume "octokit c owner repo p (target_branch (config c)) = Inr (DataObject data)"
     and "item_size data > maxFileSize (config c)"
  then show "getFileContent rt c owner repo p = None" by (rule getFileContent_oversize)
next
  fix f assume "getFileContent rt c owner repo p = Some f"
  then show "fsize f \<le> maxFileSize (config c)" by (rule getFileContent_size)
next
  fix f assume "getFileContent rt c owner repo p = Some f"
  from getFileContent_Some[OF this]
  show "\<exists>data b. octokit c owner repo p (target_branch (config c)) = Inr (DataObject data)
                \<and> item_content data = Some b
                \<and> f = \<lparr> path = item_path data, content = base64_utf8 rt b,
                         fsize = item_size data, sha = item_sha data \<rparr>" by blast
next
  show "\<exists>ds. getRepositoryDataChunked rt c owner repo = Inr ds
          \<and> (\<forall>f \<in> set (packageFiles ds) \<union> set (configFiles ds).
                fsize f \<le> maxFileSize (config c))"
    using getPackageJsonFiles_withinLimit[of c rt owner repo]
          getConfigFiles_withinLimit[of c rt owner repo]
    by (auto simp: getRepositoryDataChunked_returns withinLimit_def list_all_iff)
qed


theorem oversized_files_dropped_witness:
  "octokit exampleClient ''DTSL'' ''dnd-editor'' ''package.json''
       (target_branch (config exampleClient)) = Inr (DataObject bigManifest)
   \<and> maxFileSize (config exampleClient) < item_size bigManifest
   \<and> getFileContent exampleRuntime exampleClient ''DTSL'' ''dnd-editor'' ''package.json'' = None
   \<and> getRepositoryDataChunked exampleRuntime exampleClient ''DTSL'' ''dnd-editor''
       = Inr \<lparr> packageFiles = [],
               configFiles = [\<lparr> path = ''turbo.json'', content = ''{}'', fsize = 2,
                                sha = ''c1'' \<rparr>],
               metadata = \<lparr> meta_owner = ''DTSL'', meta_repo = ''dnd-editor'',
                            fetchedAt = ''2024-01-01T00:00:00.000Z'', totalFiles = 1 \<rparr> \<rparr>"
proof -
  have h1: "octokit exampleClient ''DTSL'' ''dnd-editor'' ''package.json''
              (target_branch (config exampleClient)) = Inr (DataObject bigManifest)"
    by (simp add: exampleClient_def exampleService_def)
  have h2: "maxFileSize (config exampleClient) < item_size bigManifest"
    by (simp add: exampleClient_def MCP_CONFIG_def bigManifest_def)
  from oversized_files_dropped[of exampleClient "''DTSL''" "''dnd-editor''" "''package.json''"
         exampleRuntime] h1 h2
  have "getFileContent exampleRuntime exampleClient ''DTSL'' ''dnd-editor'' ''package.json'' = None"
    by blast
  with h1 h2 exampleClient_dataset show ?thesis by simp
qed

text \<open>
  C6, as stated, fails: a root manifest whose \<^verbatim>\<open>devDependencies\<close> contains
  \<^verbatim>\<open>@dtsl/jest-config\<close> with the empty string as version, and none of the other three
  packages, gets four medium findings, one of them for \<^verbatim>\<open>@dtsl/jest-config\<close>: the check
  tests the value for truthiness, not the key for presence.
\<close>

theorem falsy_version_counterexample:
  "findRootPackage targetEmptyVersion
     = Some \<lparr> path = ''package.json'', content = emptyVersionText, fsize = 44, sha = ''f2'' \<rparr>
   \<and> JSON_parse exampleRuntime emptyVersionText
     = Inr (JObj [(''devDependencies'', JObj [(''@dtsl/jest-config'', JStr [])])])
   \<and> map_of (categories (runAuditChecks exampleRuntime targetEmptyVersion [] []
                (newAuditReport ''DTSL'' ''dnd-editor'' (now_iso exampleRuntime))))
         DEPENDENCIES
     = Some \<lparr>issues = [missingDependency ''@dtsl/jest-config'',
                       missingDependency ''@dtsl/eslint-config'',
                       missingDependency ''@dtsl/prettier-config'',
                       missingDependency ''@dtsl/typescript-config''],
              score = 60\<rparr>
   \<and> map severity [missingDependency ''@dtsl/jest-config'',
                    missingDependency ''@dtsl/eslint-config'',
                    missingDependency ''@dtsl/prettier-config'',
                    missingDependency ''@dtsl/typescript-config'']
     = [Medium, Medium, Medium, Medium]"
  unfolding runAuditChecks_dependencies emptyVersion_entry
  by (simp add: findRootPackage_def targetEmptyVersion_def exampleRuntime_def text_neq
        emptyVersionJson_def missingDependency_def)


text \<open>
  C6, amended. When the root manifest parses to an object whose \<^verbatim>\<open>devDependencies\<close> is an
  object that gives \<^verbatim>\<open>@dtsl/jest-config\<close> a truthy value, and none of
  \<^verbatim>\<open>@dtsl/eslint-config\<close>, \<^verbatim>\<open>@dtsl/prettier-config\<close>, \<^verbatim>\<open>@dtsl/typescript-config\<close> is a key of
  \<^verbatim>\<open>devDependencies\<close> or of \<^verbatim>\<open>dependencies\<close>, the Dependencies category of the finished
  report holds exactly three findings of severity medium, one per missing package in
  the order of the list, each with the name of its package in the message; the only
  other finding it can hold is the low one about lodash.
\<close>

theorem missing_dependencies_reported:
  assumes "findRootPackage targetData = Some rootPackage"
      and "JSON_parse rt (content rootPackage) = Inr (JObj kvs)"
      and "map_of kvs ''devDependencies'' = Some (JObj dev)"
      and "truthy (map_of dev ''@dtsl/jest-config'')"
      and "map_of dev ''@dtsl/eslint-config'' = None"
      and "map_of dev ''@dtsl/prettier-config'' = None"
      and "map_of dev ''@dtsl/typescript-config'' = None"
      and "optProp (map_of kvs ''dependencies'') ''@dtsl/eslint-config'' = None"
      and "optProp (map_of kvs ''dependencies'') ''@dtsl/prettier-config'' = None"
      and "optProp (map_of kvs ''dependencies'') ''@dtsl/typescript-config'' = None"
  shows "\<exists>cr. map_of (categories (runAuditChecks rt targetData boilerplateData commonConfigData
                                     auditReport)) DEPENDENCIES = Some cr
           \<and> filter (\<lambda>i. severity i = Medium) (issues cr)
               = [missingDependency ''@dtsl/eslint-config'',
                  missingDependency ''@dtsl/prettier-config'',
                  missingDependency ''@dtsl/typescript-config'']
           \<and> map message (filter (\<lambda>i. severity i = Medium) (issues cr))
               = [''Missing DTSL common dependency: @dtsl/eslint-config'',
                  ''Missing DTSL common dependency: @dtsl/prettier-config'',
                  ''Missing DTSL common dependency: @dtsl/typescript-config'']
           \<and> (issues cr = filter (\<lambda>i. severity i = Medium) (issues cr)
                \<or> issues cr = filter (\<lambda>i. severity i = Medium) (issues cr) @ [lodashIssue])"
  unfolding runAuditChecks_dependencies dependencies_entry[OF assms]
  by (simp add: missingDependency_def lodashIssue_def)

theorem missing_dependencies_reported_witness:
  "findRootPackage targetWithManifest
     = Some \<lparr> path = ''package.json'', content = manifestText, fsize = 49, sha = ''f1'' \<rparr>
   \<and> JSON_parse exampleRuntime manifestText
     = Inr (JObj [(''devDependencies'', JObj [(''@dtsl/jest-config'', JStr ''1.0.0'')])])
   \<and> (\<exists>cr. map_of (categories (runAuditChecks exampleRuntime targetWithManifest [] []
                       (newAuditReport ''DTSL'' ''dnd-editor'' (now_iso exampleRuntime))))
                DEPENDENCIES = Some cr
          \<and> issues cr = [missingDependency ''@dtsl/eslint-config'',
                          missingDependency ''@dtsl/prettier-config'',
                          missingDependency ''@dtsl/typescript-config''])"
proof -
  let ?f = "\<lparr> path = ''package.json'', content = manifestText, fsize = 49, sha = ''f1'' \<rparr>"
  let ?dev = "[(''@dtsl/jest-config'', JStr ''1.0.0'')]"
  let ?kvs = "[(''devDependencies'', JObj ?dev)]"
  have h1: "findRootPackage targetWithManifest = Some ?f"
    by (simp add: findRootPackage_def targetWithManifest_def)
  have h2: "JSON_parse exampleRuntime (content ?f) = Inr (JObj ?kvs)"
    by (simp add: exampleRuntime_def manifestJson_def)
  have h3: "map_of ?kvs ''devDependencies'' = Some (JObj ?dev)" by simp
  have h4: "truthy (map_of ?dev ''@dtsl/jest-config'')" by simp
  have h5: "map_of ?dev ''@dtsl/eslint-config'' = None"
           "map_of ?dev ''@dtsl/prettier-config'' = None"
           "map_of ?dev ''@dtsl/typescript-config'' = None" by simp_all
  have h6: "optProp (map_of ?kvs ''dependencies'') ''@dtsl/eslint-config'' = None"
           "optProp (map_of ?kvs ''dependencies'') ''@dtsl/prettier-config'' = None"
           "optProp (map_of ?kvs ''dependencies'') ''@dtsl/typescript-config'' = None"
    by simp_all
  from missing_dependencies_reported[OF h1 h2 h3 h4 h5 h6, of "[]" "[]"
         "newAuditReport ''DTSL'' ''dnd-editor'' (now_iso exampleRuntime)"]
  obtain cr where
    cr: "map_of (categories (runAuditChecks exampleRuntime targetWithManifest [] []
                   (newAuditReport ''DTSL'' ''dnd-editor'' (now_iso exampleRuntime))))
           DEPENDENCIES = Some cr"
    and med: "filter (\<lambda>i. severity i = Medium) (issues cr)
               = [missingDependency ''@dtsl/eslint-config'',
                  missingDependency ''@dtsl/prettier-config'',
                  missingDependency ''@dtsl/typescript-config'']"
    and alt: "issues cr = filter (\<lambda>i. severity i = Medium) (issues cr)
                \<or> issues cr = filter (\<lambda>i. severity i = Medium) (issues cr) @ [lodashIssue]"
    by blast
  have entry: "map_of (categories (auditDependencyManagement exampleRuntime targetWithManifest []
                  (auditPackageStructure exampleRuntime targetWithManifest []
                     (newAuditReport ''DTSL'' ''dnd-editor'' (now_iso exampleRuntime)))))
                DEPENDENCIES
               = Some \<lparr>issues = [missingDependency ''@dtsl/eslint-config'',
                                 missingDependency ''@dtsl/prettier-config'',
                                 missingDependency ''@dtsl/typescript-config''],
                        score = 70\<rparr>"
    unfolding dependencies_entry[OF h1 h2 h3 h4 h5 h6] by simp
  from cr have "cr = \<lparr>issues = [missingDependency ''@dtsl/eslint-config'',
                                 missingDependency ''@dtsl/prettier-config'',
                                 missingDependency ''@dtsl/typescript-config''],
                        score = 70\<rparr>"
    unfolding runAuditChecks_dependencies entry by simp
  then have "issues cr = [missingDependency ''@dtsl/eslint-config'',
                          missingDependency ''@dtsl/prettier-config'',
                          missingDependency ''@dtsl/typescript-config'']"
    by simp
  with cr h1 h2 show ?thesis by (simp add: manifestJson_def)
qed

text \<open>
  C7 fails on the code. The root listing of the shared-config repository shows
  \<^verbatim>\<open>setup.js\<close> with the type \<^verbatim>\<open>symlink\<close>; the condition of \<^verbatim>\<open>getCommonConfig\<close> is true for
  it, because its name ends in \<^verbatim>\<open>.js\<close>, and the record of the file it points to is
  returned, although no entry of type \<^verbatim>\<open>file\<close> has that path.
\<close>

theorem common_config_symlink:
  "map (\<lambda>item. (item_path item, item_type item))
       (getRepositoryStructure exampleClient (commonConfig_owner (config exampleClient))
          (commonConfig_repo (config exampleClient)) [])
     = [(''index.js'', ''file''), (''setup.js'', ''symlink'')]
   \<and> getCommonConfig exampleRuntime exampleClient
     = [\<lparr> path = ''index.js'', content = ''{}'', fsize = 2, sha = ''d1'' \<rparr>,
        \<lparr> path = ''setup.js'', content = ''{}'', fsize = 2, sha = ''e1'' \<rparr>]"
  by (simp add: getCommonConfig_def run_simps example_simps endsWith_def suffix_to_prefix)

text \<open>
  C8 fails on the code. With the patterns of \<^verbatim>\<open>getConfigFiles\<close> the name \<^verbatim>\<open>turbo-json\<close>
  matches, through the unescaped \<^verbatim>\<open>.\<close> of \<^verbatim>\<open>turbo.json\<close>, where the matching of the
  specification, which takes every character but \<^verbatim>\<open>*\<close> literally, says no. Only the
  first \<^verbatim>\<open>*\<close> of a pattern becomes a wildcard: \<^verbatim>\<open>a*b*c\<close> matches \<^verbatim>\<open>ac\<close>; and the pattern
  \<^verbatim>\<open>**\<close> raises a \<^verbatim>\<open>SyntaxError\<close> instead of answering.
\<close>

theorem matchesPattern_not_glob:
  "matchesPattern ''turbo-json'' configPatterns = Inr True
   \<and> \<not> spec_matchesPattern ''turbo-json'' configPatterns
   \<and> matchesPattern ''ac'' [''a*b*c''] = Inr True
   \<and> \<not> spec_matchesPattern ''ac'' [''a*b*c'']
   \<and> matchesPattern ''x'' [''**''] = Inl SyntaxError"
  by code_simp

end
